theory Spec2Isabelle
  imports Complex_Main "HOL-Library.Sublist" "HOL-Library.AList"
begin

section \<open>Python values, exceptions and the effects of the module\<close>

text \<open>
  The module \<^verbatim>\<open>crossfitgames/api/api_calls.py\<close> works on parsed JSON and on the
  arguments its callers pass. Both are Python objects; \<open>pyval\<close> holds the ones JSON
  parsing produces (and \<open>PNaN\<close>, the float pandas stores in a missing cell). A dict is an
  association list read by its first entry for a key.
\<close>

datatype pyval =
    PNone
  | PBool bool
  | PInt int
  | PFloat real
  | PNaN
  | PStr string
  | PList "pyval list"
  | PDict "(string \<times> pyval) list"

text \<open>
  Every exception of the module is an instance of Python's \<open>Exception\<close>, so an
  \<^verbatim>\<open>except Exception\<close> clause catches each constructor below. \<open>KeyError\<close> carries the
  missing key, \<open>TypeError\<close> and \<open>NameError\<close> their message.
\<close>

datatype exn =
    TypeError string
  | KeyError pyval
  | IndexError
  | ValueError
  | NameError string
  | RequestException
  | OtherException

datatype level = DEBUG | INFO | ERROR | CRITICAL

text \<open>
  The effects are the HTTP requests issued and the calls of \<^verbatim>\<open>logging\<close>. A log entry
  keeps the severity and the text of the message as the source writes it, its
  \<^verbatim>\<open>{...}\<close> fields not filled in.
\<close>

record state =
  requests :: "string list"
  logged :: "(level \<times> string) list"

definition logging :: "level \<Rightarrow> string \<Rightarrow> state \<Rightarrow> state" where
  "logging lvl msg st = st\<lparr>logged := logged st @ [(lvl, msg)]\<rparr>"

definition exn_bind :: "exn + 'a \<Rightarrow> ('a \<Rightarrow> exn + 'b) \<Rightarrow> exn + 'b" where
  "exn_bind r f = (case r of Inl e \<Rightarrow> Inl e | Inr x \<Rightarrow> f x)"

subsection \<open>Built-in operations of Python the module uses\<close>

text \<open>\<^verbatim>\<open>isinstance(x, int)\<close>: \<open>bool\<close> is a subclass of \<open>int\<close>.\<close>

fun isinstance_int :: "pyval \<Rightarrow> bool" where
  "isinstance_int (PInt n) = True"
| "isinstance_int (PBool b) = True"
| "isinstance_int v = False"

text \<open>\<^verbatim>\<open>x == k\<close> for an int literal \<open>k\<close>: numbers compare by value, \<open>True == 1\<close>.\<close>

fun py_eq_int :: "pyval \<Rightarrow> int \<Rightarrow> bool" where
  "py_eq_int (PInt n) k = (n = k)"
| "py_eq_int (PBool b) k = ((if b then 1 else 0) = k)"
| "py_eq_int (PFloat r) k = (r = of_int k)"
| "py_eq_int v k = False"

text \<open>An object used where Python wants an integer (\<^verbatim>\<open>range\<close>, integer arithmetic).\<close>

fun as_index :: "pyval \<Rightarrow> exn + int" where
  "as_index (PInt n) = Inr n"
| "as_index (PBool b) = Inr (if b then 1 else 0)"
| "as_index v = Inl (TypeError ''object cannot be interpreted as an integer'')"

text \<open>\<^verbatim>\<open>x + k\<close>, \<^verbatim>\<open>x - k\<close> and \<^verbatim>\<open>x % k\<close> for an int \<open>k\<close>. A float operand gives
  a float, a string, list, dict or \<open>None\<close> raises (for \<^verbatim>\<open>str % int\<close>, string formatting,
  which raises unless the string holds one conversion; then \<^verbatim>\<open>range\<close> raises on the string
  it gives). Python's \<open>%\<close> takes the sign of the divisor, as \<open>mod\<close> on \<open>int\<close> does.\<close>

fun py_add_int :: "pyval \<Rightarrow> int \<Rightarrow> exn + pyval" where
  "py_add_int (PInt n) k = Inr (PInt (n + k))"
| "py_add_int (PBool b) k = Inr (PInt ((if b then 1 else 0) + k))"
| "py_add_int (PFloat r) k = Inr (PFloat (r + of_int k))"
| "py_add_int PNaN k = Inr PNaN"
| "py_add_int v k = Inl (TypeError ''unsupported operand type(s) for +'')"

fun py_sub_int :: "pyval \<Rightarrow> int \<Rightarrow> exn + pyval" where
  "py_sub_int (PInt n) k = Inr (PInt (n - k))"
| "py_sub_int (PBool b) k = Inr (PInt ((if b then 1 else 0) - k))"
| "py_sub_int (PFloat r) k = Inr (PFloat (r - of_int k))"
| "py_sub_int PNaN k = Inr PNaN"
| "py_sub_int v k = Inl (TypeError ''unsupported operand type(s) for -'')"

fun py_mod_int :: "pyval \<Rightarrow> int \<Rightarrow> exn + pyval" where
  "py_mod_int (PInt n) k = Inr (PInt (n mod k))"
| "py_mod_int (PBool b) k = Inr (PInt ((if b then 1 else 0) mod k))"
| "py_mod_int (PFloat r) k = Inr (PFloat (r - of_int k * of_int \<lfloor>r / of_int k\<rfloor>))"
| "py_mod_int PNaN k = Inr PNaN"
| "py_mod_int v k = Inl (TypeError ''unsupported operand type(s) for %'')"

text \<open>\<^verbatim>\<open>k < x\<close> for an int \<open>k\<close> on the left.\<close>

fun py_int_lt :: "int \<Rightarrow> pyval \<Rightarrow> exn + bool" where
  "py_int_lt k (PInt n) = Inr (k < n)"
| "py_int_lt k (PBool b) = Inr (k < (if b then 1 else 0))"
| "py_int_lt k (PFloat r) = Inr (of_int k < r)"
| "py_int_lt k PNaN = Inr False"
| "py_int_lt k v = Inl (TypeError ''< not supported between instances'')"

text \<open>\<^verbatim>\<open>range(n)\<close> and \<^verbatim>\<open>range(a, b)\<close> as the lists they iterate over.\<close>

definition py_range :: "pyval \<Rightarrow> exn + nat list" where
  "py_range n = exn_bind (as_index n) (\<lambda>k. Inr [0..<nat k])"

definition py_range2 :: "pyval \<Rightarrow> pyval \<Rightarrow> exn + int list" where
  "py_range2 a b = exn_bind (as_index a) (\<lambda>i. exn_bind (as_index b) (\<lambda>j. Inr [i..j - 1]))"

text \<open>\<^verbatim>\<open>x[key]\<close> for a string key and \<^verbatim>\<open>x[idx]\<close> for an index \<open>idx \<ge> 0\<close>.\<close>

fun getitem :: "pyval \<Rightarrow> string \<Rightarrow> exn + pyval" where
  "getitem (PDict kvs) k = (case map_of kvs k of None \<Rightarrow> Inl (KeyError (PStr k)) | Some v \<Rightarrow> Inr v)"
| "getitem v k = Inl (TypeError ''indices must be integers or the object is not subscriptable'')"

fun getindex :: "pyval \<Rightarrow> nat \<Rightarrow> exn + pyval" where
  "getindex (PList xs) i = (if i < length xs then Inr (xs ! i) else Inl IndexError)"
| "getindex (PStr s) i = (if i < length s then Inr (PStr [s ! i]) else Inl IndexError)"
| "getindex (PDict kvs) i = Inl (KeyError (PInt (int i)))"
| "getindex v i = Inl (TypeError ''object is not subscriptable'')"

fun py_len :: "pyval \<Rightarrow> exn + pyval" where
  "py_len (PList xs) = Inr (PInt (int (length xs)))"
| "py_len (PStr s) = Inr (PInt (int (length s)))"
| "py_len (PDict kvs) = Inr (PInt (int (length (remdups (map fst kvs)))))"
| "py_len v = Inl (TypeError ''object has no len()'')"

text \<open>\<^verbatim>\<open>str\<close> of an int, for the f-string that builds the request URL.\<close>

definition digit_char :: "nat \<Rightarrow> char" where
  "digit_char d = ''0123456789'' ! d"

function str_nat :: "nat \<Rightarrow> string" where
  "str_nat n = (if n < 10 then [digit_char n] else str_nat (n div 10) @ [digit_char (n mod 10)])"
  by pat_completeness auto
termination
  by (relation "measure id") auto

definition str_int :: "int \<Rightarrow> string" where
  "str_int i = (if i < 0 then CHR ''-'' # str_nat (nat (- i)) else str_nat (nat i))"

text \<open>The f-string field of a value that passed \<^verbatim>\<open>isinstance(x, int)\<close>; the last
  equation is never reached there.\<close>

fun format_int :: "pyval \<Rightarrow> string" where
  "format_int (PInt n) = str_int n"
| "format_int (PBool b) = (if b then ''True'' else ''False'')"
| "format_int v = []"

text \<open>\<^verbatim>\<open>re.findall(r'\d+', x)\<close>: the maximal runs of decimal digits of a string, from
  left to right, as a list of strings (ASCII digits; a string is a list of bytes here). Any
  other object raises.\<close>

definition is_digit :: "char \<Rightarrow> bool" where
  "is_digit c = (c \<in> set ''0123456789'')"

fun digit_runs :: "string \<Rightarrow> string \<Rightarrow> string list" where
  "digit_runs cur [] = (if cur = [] then [] else [cur])"
| "digit_runs cur (c # cs) =
     (if is_digit c then digit_runs (cur @ [c]) cs
      else (if cur = [] then [] else [cur]) @ digit_runs [] cs)"

fun findall_digits :: "pyval \<Rightarrow> exn + pyval" where
  "findall_digits (PStr s) = Inr (PList (map PStr (digit_runs [] s)))"
| "findall_digits v = Inl (TypeError ''expected string or bytes-like object'')"

text \<open>\<^verbatim>\<open>int(x)\<close>. A string is
  stripped of white space and read as an optional sign and decimal digits, single
  underscores allowed between digits.\<close>

definition is_space :: "char \<Rightarrow> bool" where
  "is_space c = (c \<in> set [CHR '' '', CHR 0x09, CHR 0x0A, CHR 0x0B, CHR 0x0C, CHR 0x0D])"

definition digit_val :: "char \<Rightarrow> nat" where
  "digit_val c = of_char c - 48"

fun dec_digits :: "bool \<Rightarrow> nat \<Rightarrow> string \<Rightarrow> nat option" where
  "dec_digits prev acc [] = (if prev then Some acc else None)"
| "dec_digits prev acc (c # cs) =
     (if is_digit c then dec_digits True (10 * acc + digit_val c) cs
      else if c = CHR ''_'' \<and> prev then dec_digits False acc cs
      else None)"

definition strip :: "string \<Rightarrow> string" where
  "strip s = rev (dropWhile is_space (rev (dropWhile is_space s)))"

definition int_of_str :: "string \<Rightarrow> int option" where
  "int_of_str s =
     (case strip s of
        [] \<Rightarrow> None
      | c # cs \<Rightarrow>
          if c = CHR ''-'' then map_option (\<lambda>n. - int n) (dec_digits False 0 cs)
          else if c = CHR ''+'' then map_option int (dec_digits False 0 cs)
          else map_option int (dec_digits False 0 (c # cs)))"

fun py_int :: "pyval \<Rightarrow> exn + pyval" where
  "py_int (PInt n) = Inr (PInt n)"
| "py_int (PBool b) = Inr (PInt (if b then 1 else 0))"
| "py_int (PFloat r) = Inr (PInt (if r < 0 then \<lceil>r\<rceil> else \<lfloor>r\<rfloor>))"
| "py_int PNaN = Inl ValueError"
| "py_int (PStr s) = (case int_of_str s of None \<Rightarrow> Inl ValueError | Some n \<Rightarrow> Inr (PInt n))"
| "py_int v = Inl (TypeError ''int() argument must be a string, a bytes-like object or a real number'')"

section \<open>The table abstraction (pandas)\<close>

text \<open>
  A \<open>DataFrame\<close> is its column labels, in order, and its rows. A row lists the cells it
  holds by label; a column of the table that a row does not list is a missing cell, which
  pandas reads as NaN. Labels are Python objects (strings for named columns, ints for the
  positional columns of a frame built from a list).
\<close>

type_synonym label = pyval
type_synonym row = "(label \<times> pyval) list"

record table =
  columns :: "label list"
  rows :: "row list"

definition cell :: "row \<Rightarrow> label \<Rightarrow> pyval" where
  "cell r c = (case map_of r c of None \<Rightarrow> PNaN | Some v \<Rightarrow> v)"

text \<open>\<^verbatim>\<open>pd.DataFrame()\<close> and \<^verbatim>\<open>pd.DataFrame(columns=cs)\<close>.\<close>

definition DataFrame_empty :: table where
  "DataFrame_empty = \<lparr>columns = [], rows = []\<rparr>"

definition DataFrame_columns :: "label list \<Rightarrow> table" where
  "DataFrame_columns cs = \<lparr>columns = cs, rows = []\<rparr>"

text \<open>\<^verbatim>\<open>pd.DataFrame([x])\<close>: one row. A dict gives its keys as columns, a list one
  positional column per element, any other object the single column \<open>0\<close>.\<close>

fun DataFrame_record :: "pyval \<Rightarrow> table" where
  "DataFrame_record (PDict kvs) =
     \<lparr>columns = remdups (map (PStr \<circ> fst) kvs),
      rows = [map (\<lambda>k. (PStr k, the (map_of kvs k))) (remdups (map fst kvs))]\<rparr>"
| "DataFrame_record (PList xs) =
     \<lparr>columns = map (PInt \<circ> int) [0..<length xs],
      rows = [map (\<lambda>i. (PInt (int i), xs ! i)) [0..<length xs]]\<rparr>"
| "DataFrame_record v = \<lparr>columns = [PInt 0], rows = [[(PInt 0, v)]]\<rparr>"

text \<open>\<^verbatim>\<open>pd.DataFrame([values], columns=cs)\<close> with as many values as columns.\<close>

definition DataFrame_row :: "pyval list \<Rightarrow> label list \<Rightarrow> table" where
  "DataFrame_row vs cs = \<lparr>columns = cs, rows = [zip cs vs]\<rparr>"

text \<open>\<^verbatim>\<open>df[c] = vs\<close> for a column of cells, one per row, and \<^verbatim>\<open>df[c]\<close>, which raises
  \<open>KeyError\<close> for a label that is no column; \<^verbatim>\<open>series.apply(f)\<close>, which raises what \<open>f\<close>
  raises first.\<close>

definition add_column :: "label \<Rightarrow> label list \<Rightarrow> label list" where
  "add_column c cs = (if c \<in> set cs then cs else cs @ [c])"

definition assign_column :: "label \<Rightarrow> pyval list \<Rightarrow> table \<Rightarrow> table" where
  "assign_column c vs df =
     \<lparr>columns = add_column c (columns df),
      rows = map (\<lambda>(r, v). AList.update c v r) (zip (rows df) vs)\<rparr>"

text \<open>\<^verbatim>\<open>df[c] = v\<close> for one object \<open>v\<close>. A scalar is stored in every row. A list is
  taken as the column: it must have one element per row, else pandas raises \<open>ValueError\<close>
  (length of values does not match length of index). A dict is aligned on the row index,
  which its string keys never meet, so every row gets NaN. A table with no row takes its
  rows from a list or dict that has elements, one row per element.\<close>

definition broadcast_column :: "label \<Rightarrow> pyval \<Rightarrow> table \<Rightarrow> table" where
  "broadcast_column c v df =
     \<lparr>columns = add_column c (columns df), rows = map (AList.update c v) (rows df)\<rparr>"

fun set_column :: "label \<Rightarrow> pyval \<Rightarrow> table \<Rightarrow> exn + table" where
  "set_column c (PList xs) df =
     (if rows df = [] \<and> xs \<noteq> [] then
        Inr \<lparr>columns = add_column c (columns df), rows = map (\<lambda>v. [(c, v)]) xs\<rparr>
      else if length xs = length (rows df) then Inr (assign_column c xs df)
      else Inl ValueError)"
| "set_column c (PDict kvs) df =
     (if rows df = [] \<and> kvs \<noteq> [] then
        Inr \<lparr>columns = add_column c (columns df),
             rows = map (\<lambda>k. [(c, the (map_of kvs k))]) (remdups (map fst kvs))\<rparr>
      else Inr (broadcast_column c PNaN df))"
| "set_column c v df = Inr (broadcast_column c v df)"

definition get_column :: "table \<Rightarrow> label \<Rightarrow> exn + pyval list" where
  "get_column df c =
     (if c \<in> set (columns df) then Inr (map (\<lambda>r. cell r c) (rows df)) else Inl (KeyError c))"

fun apply_series :: "(pyval \<Rightarrow> exn + pyval) \<Rightarrow> pyval list \<Rightarrow> exn + pyval list" where
  "apply_series f [] = Inr []"
| "apply_series f (v # vs) =
     exn_bind (f v) (\<lambda>w. exn_bind (apply_series f vs) (\<lambda>ws. Inr (w # ws)))"

text \<open>\<^verbatim>\<open>series.astype('int')\<close>: the cast converts every cell as \<open>int\<close> does; a cell
  that is a list is no number, and the cast reports it as \<open>ValueError\<close> (setting an array
  element with a sequence).\<close>

fun astype_cell :: "pyval \<Rightarrow> exn + pyval" where
  "astype_cell (PList xs) = Inl ValueError"
| "astype_cell v = py_int v"

definition astype_int :: "pyval list \<Rightarrow> exn + pyval list" where
  "astype_int vs = apply_series astype_cell vs"

text \<open>\<^verbatim>\<open>df.loc[mask, c] = v\<close>: the rows the mask selects get \<open>v\<close> in column \<open>c\<close>, which
  is added to the table when it is new.\<close>

definition loc_set :: "bool list \<Rightarrow> label \<Rightarrow> pyval \<Rightarrow> table \<Rightarrow> table" where
  "loc_set sel c v df =
     \<lparr>columns = add_column c (columns df),
      rows = map (\<lambda>(r, m). if m then AList.update c v r else r) (zip (rows df) sel)\<rparr>"

text \<open>\<^verbatim>\<open>pd.concat([a, b], ignore_index=True)\<close>: the rows of \<open>a\<close>, then those of \<open>b\<close>;
  the columns of \<open>a\<close>, then the new ones of \<open>b\<close>.\<close>

definition pd_concat :: "table \<Rightarrow> table \<Rightarrow> table" where
  "pd_concat a b =
     \<lparr>columns = columns a @ filter (\<lambda>c. c \<notin> set (columns a)) (columns b),
      rows = rows a @ rows b\<rparr>"

text \<open>
  What the module calls and this repository's sources do not hold: the HTTP client
  (\<^verbatim>\<open>requests.get\<close> with \<^verbatim>\<open>raise_for_status\<close>, then \<^verbatim>\<open>response.json()\<close>; the answer may
  depend on the requests issued before), \<^verbatim>\<open>pd.json_normalize\<close>, and the functions of
  \<^verbatim>\<open>crossfitgames.utils.transformation_functions\<close>. Each is a parameter and may raise.
\<close>

record ext =
  requests_get :: "string list \<Rightarrow> string \<Rightarrow> exn + (exn + pyval)"
  json_normalize :: "pyval \<Rightarrow> exn + table"
  convert_object_columns_to_numeric :: "table \<Rightarrow> exn + table"
  lb_to_kg :: "pyval \<Rightarrow> exn + pyval"
  inch_to_cm :: "pyval \<Rightarrow> exn + pyval"

section \<open>The module\<close>

subsection \<open>\<^verbatim>\<open>games_json_dump\<close>\<close>

fun is_RequestException :: "exn \<Rightarrow> bool" where
  "is_RequestException RequestException = True"
| "is_RequestException e = False"

fun is_KeyError :: "exn \<Rightarrow> bool" where
  "is_KeyError (KeyError k) = True"
| "is_KeyError e = False"

definition request_url :: "pyval \<Rightarrow> pyval \<Rightarrow> pyval \<Rightarrow> string" where
  "request_url year division page =
     ''https://c3po.crossfit.com/api/leaderboards/v2/competitions/games/'' @ format_int year
     @ ''/leaderboards?division='' @ format_int division
     @ ''&sort=0&page='' @ format_int page"

definition request_failed :: "exn \<Rightarrow> state \<Rightarrow> state \<times> (exn + pyval)" where
  "request_failed e st =
     (if is_RequestException e then (logging ERROR ''API request failed: {e}'' st, Inl e)
      else (st, Inl e))"

definition games_json_dump ::
  "ext \<Rightarrow> pyval \<Rightarrow> pyval \<Rightarrow> pyval \<Rightarrow> state \<Rightarrow> state \<times> (exn + pyval)" where
  "games_json_dump x year division page st0 =
     (let st = logging INFO
                 ''Starting API call for year {year}, division {division} and page {page}'' st0
      in
      if \<not> isinstance_int year then
        (logging ERROR ''Invalid type for 'year': Expected int'' st,
         Inl (TypeError ''year should be an integer''))
      else if \<not> isinstance_int division then
        (logging ERROR ''Invalid type for 'division': Expected int'' st,
         Inl (TypeError ''division should be an integer''))
      else if \<not> isinstance_int page then
        (logging ERROR ''Invalid type for 'page': Expected int'' st,
         Inl (TypeError ''page should be an integer''))
      else
        let url = request_url year division page;
            st = logging DEBUG ''Request URL: {url}'' st;
            answer = requests_get x (requests st) url;
            st = st\<lparr>requests := requests st @ [url]\<rparr>
        in
        case answer of
          Inl e \<Rightarrow> request_failed e st
        | Inr response \<Rightarrow>
            let st = logging INFO
                  ''Successfully fetched data for year {year}, division {division} and page {page}'' st
            in (case response of
                  Inl e \<Rightarrow> request_failed e st
                | Inr json \<Rightarrow> (st, Inr json)))"

subsection \<open>\<^verbatim>\<open>games_info\<close>\<close>

text \<open>The four reads of the \<^verbatim>\<open>try\<close> block, in the source's order; the result is the
  list \<^verbatim>\<open>[competition_id, total_pages, total_competitors, total_events]\<close> as a tuple.\<close>

type_synonym info = "pyval \<times> pyval \<times> pyval \<times> pyval"

definition games_info_fields :: "pyval \<Rightarrow> exn + info" where
  "games_info_fields response =
     exn_bind (exn_bind (getitem response ''pagination'') (\<lambda>p. getitem p ''totalPages''))
       (\<lambda>total_pages.
     exn_bind (exn_bind (getitem response ''pagination'') (\<lambda>p. getitem p ''totalCompetitors''))
       (\<lambda>total_competitors.
     exn_bind (exn_bind (getitem response ''competition'') (\<lambda>c. getitem c ''competitionId''))
       (\<lambda>competition_id.
     exn_bind (exn_bind (getitem response ''ordinals'') py_len)
       (\<lambda>total_events.
     Inr (competition_id, total_pages, total_competitors, total_events)))))"

definition info_total_pages :: "info \<Rightarrow> pyval" where
  "info_total_pages i = fst (snd i)"

definition info_total_competitors :: "info \<Rightarrow> pyval" where
  "info_total_competitors i = fst (snd (snd i))"

definition games_info :: "ext \<Rightarrow> pyval \<Rightarrow> pyval \<Rightarrow> state \<Rightarrow> state \<times> (exn + info)" where
  "games_info x year division st0 =
     (let st = logging INFO ''Fetching games info for year {year} and division {division}'' st0
      in
      case games_json_dump x year division (PInt 1) st of
        (st, Inl e) \<Rightarrow> (st, Inl e)
      | (st, Inr response) \<Rightarrow>
          (case games_info_fields response of
             Inl e \<Rightarrow>
               if is_KeyError e then (logging ERROR ''Key missing in response: {e}'' st, Inl e)
               else (st, Inl e)
           | Inr i \<Rightarrow> (logging INFO
                  ''Fetched games metadata: competition_id {competition_id}, total_pages {total_pages}, total_competitors {total_competitors} and total_events {total_events}''
                  st,
                Inr i)))"

subsection \<open>\<^verbatim>\<open>games_info_multiple\<close>\<close>

text \<open>Line 80: \<^verbatim>\<open>[1] if division == 1 else [2] if division == 2 else [1, 2]\<close>.\<close>

definition division_value_multiple :: "pyval \<Rightarrow> pyval list" where
  "division_value_multiple division =
     (if py_eq_int division 1 then [PInt 1]
      else if py_eq_int division 2 then [PInt 2] else [PInt 1, PInt 2])"

definition multiple_columns :: "label list" where
  "multiple_columns =
     [PStr ''competitionId'', PStr ''totalPages'', PStr ''totalCompetitors'',
      PStr ''totalEvents'', PStr ''year'', PStr ''division'']"

text \<open>The \<^verbatim>\<open>for div in division_value\<close> loop of one year, which runs inside the
  \<^verbatim>\<open>try\<close>: an exception ends it and leaves the table as it was then.\<close>

fun multiple_div_loop ::
  "ext \<Rightarrow> int \<Rightarrow> pyval list \<Rightarrow> table \<Rightarrow> state \<Rightarrow> state \<times> table \<times> exn option" where
  "multiple_div_loop x year [] df st = (st, df, None)"
| "multiple_div_loop x year (d # ds) df st0 =
     (let st = logging INFO ''Processing year {year} and division {div}'' st0 in
      case games_info x (PInt year) d st of
        (st, Inl e) \<Rightarrow> (st, df, Some e)
      | (st, Inr (competition_id, total_pages, total_competitors, total_events)) \<Rightarrow>
          let result_list =
                [competition_id, total_pages, total_competitors, total_events, PInt year, d];
              temp_df = DataFrame_row result_list (columns df)
          in multiple_div_loop x year ds (pd_concat df temp_df) st)"

text \<open>The \<^verbatim>\<open>for year\<close> loop: the \<^verbatim>\<open>try\<close> holds the whole division loop of the year, and
  the handler logs and goes on to the next year.\<close>

fun multiple_year_loop ::
  "ext \<Rightarrow> pyval list \<Rightarrow> int list \<Rightarrow> table \<Rightarrow> state \<Rightarrow> state \<times> table" where
  "multiple_year_loop x division_value [] df st = (st, df)"
| "multiple_year_loop x division_value (year # years) df st0 =
     (case multiple_div_loop x year division_value df st0 of
        (st, df, None) \<Rightarrow> multiple_year_loop x division_value years df st
      | (st, df, Some e) \<Rightarrow>
          multiple_year_loop x division_value years df
            (logging ERROR ''Error processing year {year} and division {div}: {e}'' st))"

definition games_info_multiple ::
  "ext \<Rightarrow> pyval \<Rightarrow> pyval \<Rightarrow> pyval \<Rightarrow> state \<Rightarrow> state \<times> (exn + table)" where
  "games_info_multiple x year_from year_too division st0 =
     (let st = logging INFO
             ''Fetching multiple years games info from {year_from} to {year_too} for division {division}''
             st0;
          df = DataFrame_columns multiple_columns;
          division_value = division_value_multiple division
      in
      case exn_bind (py_add_int year_too 1) (py_range2 year_from) of
        Inl e \<Rightarrow> (st, Inl e)
      | Inr years \<Rightarrow>
          (case multiple_year_loop x division_value years df st of
             (st, df) \<Rightarrow>
               (logging INFO
                  ''Completed fetching games info from {year_from} to {year_too} for division {division}. Total records: {len(df_games_info_multiple)}''
                  st,
                convert_object_columns_to_numeric x df)))"

subsection \<open>\<^verbatim>\<open>games_info_competitors\<close>\<close>

definition division_value_competitors :: "pyval \<Rightarrow> pyval list" where
  "division_value_competitors division =
     (if py_eq_int division 1 then [PInt 1]
      else if py_eq_int division 2 then [PInt 2] else [PInt 1, PInt 2])"

definition leaderboard_row :: "pyval \<Rightarrow> nat \<Rightarrow> exn + pyval" where
  "leaderboard_row response idx =
     exn_bind (getitem response ''leaderboardRows'') (\<lambda>rs. getindex rs idx)"

text \<open>Lines 125 to 130: the one-row table of a competitor.\<close>

definition competitor_row :: "pyval \<Rightarrow> nat \<Rightarrow> exn + table" where
  "competitor_row response idx =
     exn_bind (exn_bind (leaderboard_row response idx) (\<lambda>r. getitem r ''entrant''))
       (\<lambda>entrant_json.
     exn_bind (exn_bind (leaderboard_row response idx) (\<lambda>r. getitem r ''overallScore''))
       (\<lambda>overallScore.
     exn_bind (exn_bind (leaderboard_row response idx) (\<lambda>r. getitem r ''overallRank''))
       (\<lambda>overallRank.
     exn_bind (set_column (PStr ''overallScore'') overallScore (DataFrame_record entrant_json))
       (\<lambda>df_temp.
     set_column (PStr ''overallRank'') overallRank df_temp))))"

text \<open>Line 123: \<^verbatim>\<open>range(50) if page < info_response[1] else range(info_response[2] % 50)\<close>.\<close>

definition competitors_on_page :: "pyval \<Rightarrow> pyval \<Rightarrow> int \<Rightarrow> exn + nat list" where
  "competitors_on_page total_pages total_competitors page =
     exn_bind (py_int_lt page total_pages)
       (\<lambda>more. if more then py_range (PInt 50)
               else exn_bind (py_mod_int total_competitors 50) py_range)"

text \<open>The \<^verbatim>\<open>for idx in competitors_on_page\<close> loop: a row is appended per index until one
  raises.\<close>

fun competitors_idx_loop :: "pyval \<Rightarrow> nat list \<Rightarrow> table \<Rightarrow> table \<times> exn option" where
  "competitors_idx_loop response [] df = (df, None)"
| "competitors_idx_loop response (idx # idxs) df =
     (case competitor_row response idx of
        Inl e \<Rightarrow> (df, Some e)
      | Inr df_temp \<Rightarrow> competitors_idx_loop response idxs (pd_concat df df_temp))"

text \<open>One turn of the page loop, lines 120 to 134, with its handler.\<close>

definition competitors_page ::
  "ext \<Rightarrow> pyval \<Rightarrow> pyval \<Rightarrow> info \<Rightarrow> int \<Rightarrow> table \<Rightarrow> state \<Rightarrow> state \<times> table" where
  "competitors_page x year d i page df st0 =
     (let st = logging INFO ''Fetching page {page} for division {div}'' st0 in
      case games_json_dump x year d (PInt page) st of
        (st, Inl e) \<Rightarrow>
          (logging ERROR ''Error processing page {page} for division {div}: {e}'' st, df)
      | (st, Inr response) \<Rightarrow>
          (case competitors_on_page (info_total_pages i) (info_total_competitors i) page of
             Inl e \<Rightarrow>
               (logging ERROR ''Error processing page {page} for division {div}: {e}'' st, df)
           | Inr idxs \<Rightarrow>
               (case competitors_idx_loop response idxs df of
                  (df, None) \<Rightarrow> (st, df)
                | (df, Some e) \<Rightarrow>
                    (logging ERROR ''Error processing page {page} for division {div}: {e}'' st,
                     df))))"

fun competitors_page_loop ::
  "ext \<Rightarrow> pyval \<Rightarrow> pyval \<Rightarrow> info \<Rightarrow> int list \<Rightarrow> table \<Rightarrow> state \<Rightarrow> state \<times> table" where
  "competitors_page_loop x year d i [] df st = (st, df)"
| "competitors_page_loop x year d i (page # pages) df st0 =
     (case competitors_page x year d i page df st0 of
        (st, df) \<Rightarrow> competitors_page_loop x year d i pages df st)"

text \<open>One turn of the division loop, lines 116 to 137, with its handler.\<close>

definition competitors_division ::
  "ext \<Rightarrow> pyval \<Rightarrow> pyval \<Rightarrow> table \<Rightarrow> state \<Rightarrow> state \<times> table" where
  "competitors_division x year d df st0 =
     (let st = logging INFO ''Processing division {div}'' st0 in
      case games_info x year d st of
        (st, Inl e) \<Rightarrow> (logging ERROR ''Error processing division {div}: {e}'' st, df)
      | (st, Inr i) \<Rightarrow>
          (case exn_bind (py_add_int (info_total_pages i) 1) (py_range2 (PInt 1)) of
             Inl e \<Rightarrow> (logging ERROR ''Error processing division {div}: {e}'' st, df)
           | Inr pages \<Rightarrow> competitors_page_loop x year d i pages df st))"

fun competitors_div_loop ::
  "ext \<Rightarrow> pyval \<Rightarrow> pyval list \<Rightarrow> table \<Rightarrow> state \<Rightarrow> state \<times> table" where
  "competitors_div_loop x year [] df st = (st, df)"
| "competitors_div_loop x year (d # ds) df st0 =
     (case competitors_division x year d df st0 of
        (st, df) \<Rightarrow> competitors_div_loop x year ds df st)"

text \<open>Lines 110 to 137: the table collected before the transformations.\<close>

definition competitors_collect :: "ext \<Rightarrow> pyval \<Rightarrow> pyval \<Rightarrow> state \<Rightarrow> state \<times> table" where
  "competitors_collect x year division st0 =
     (let st = logging INFO ''Fetching competitor info for year {year} and division {division}'' st0;
          df = DataFrame_empty;
          division_value = division_value_competitors division
      in competitors_div_loop x year division_value df st)"

text \<open>\<^verbatim>\<open>df[dst] = f(df[src])\<close>.\<close>

definition update_column ::
  "label \<Rightarrow> label \<Rightarrow> (pyval list \<Rightarrow> exn + pyval list) \<Rightarrow> table \<Rightarrow> exn + table" where
  "update_column dst src f df =
     exn_bind (get_column df src) (\<lambda>vs. exn_bind (f vs) (\<lambda>ws. Inr (assign_column dst ws df)))"

text \<open>Lines 141 to 150, outside every \<^verbatim>\<open>try\<close>.\<close>

definition competitors_transform :: "ext \<Rightarrow> table \<Rightarrow> exn + table" where
  "competitors_transform x df =
     exn_bind (update_column (PStr ''weight'') (PStr ''weight'') (apply_series findall_digits) df)
       (\<lambda>df.
     exn_bind (update_column (PStr ''overallRank'') (PStr ''overallRank'')
                 (apply_series findall_digits) df)
       (\<lambda>df.
     exn_bind (update_column (PStr ''overallRank'') (PStr ''overallRank'') astype_int df)
       (\<lambda>df.
     exn_bind (update_column (PStr ''age'') (PStr ''age'') astype_int df)
       (\<lambda>df.
     exn_bind (convert_object_columns_to_numeric x df)
       (\<lambda>df.
     exn_bind (update_column (PStr ''heightInCm'') (PStr ''height'')
                 (apply_series (inch_to_cm x)) df)
       (\<lambda>df.
     update_column (PStr ''weightInKg'') (PStr ''weight'') (apply_series (lb_to_kg x)) df))))))"

definition games_info_competitors ::
  "ext \<Rightarrow> pyval \<Rightarrow> pyval \<Rightarrow> state \<Rightarrow> state \<times> (exn + table)" where
  "games_info_competitors x year division st0 =
     (case competitors_collect x year division st0 of
        (st, df) \<Rightarrow>
          (case competitors_transform x df of
             Inl e \<Rightarrow> (st, Inl e)
           | Inr df \<Rightarrow>
               (logging INFO
                  ''Fetched competitor info. Total competitors: {len(df_games_info_competitors)}''
                  st,
                Inr df)))"

subsection \<open>\<^verbatim>\<open>games_info_scores\<close>\<close>

text \<open>Lines 196 to 201.\<close>

definition division_value_scores :: "pyval \<Rightarrow> pyval list" where
  "division_value_scores division =
     (if py_eq_int division 1 then [PInt 1]
      else if py_eq_int division 2 then [PInt 2]
      else [PInt 1, PInt 2])"

text \<open>Lines 221 to 224. \<open>total_pages\<close> has been through \<^verbatim>\<open>range(1, total_pages + 1)\<close>,
  so it is an integer here.\<close>

definition scores_num_results :: "pyval \<Rightarrow> pyval \<Rightarrow> int \<Rightarrow> exn + pyval" where
  "scores_num_results total_pages total_results page =
     (if py_eq_int total_pages page then
        exn_bind (as_index total_pages) (\<lambda>tp. py_sub_int total_results ((tp - 1) * 50))
      else Inr (PInt 50))"

text \<open>Lines 228 to 232, the body of the inner \<^verbatim>\<open>try\<close>: the score rows of one
  competitor.\<close>

definition score_rows :: "ext \<Rightarrow> pyval \<Rightarrow> pyval \<Rightarrow> pyval \<Rightarrow> nat \<Rightarrow> exn + table" where
  "score_rows x year current_division response competitor_idx =
     exn_bind (exn_bind (leaderboard_row response competitor_idx) (\<lambda>r. getitem r ''scores''))
       (\<lambda>scores_json.
     exn_bind (json_normalize x scores_json)
       (\<lambda>df_temp.
     exn_bind (exn_bind (exn_bind (leaderboard_row response competitor_idx)
                           (\<lambda>r. getitem r ''entrant''))
                 (\<lambda>e. getitem e ''competitorId''))
       (\<lambda>competitorId.
     exn_bind (set_column (PStr ''competitorId'') competitorId df_temp)
       (\<lambda>df_temp.
     exn_bind (set_column (PStr ''year'') year df_temp)
       (\<lambda>df_temp.
     set_column (PStr ''division'') current_division df_temp)))))"

text \<open>The \<^verbatim>\<open>for competitor_idx\<close> loop: its handler logs and goes on to the next index.\<close>

fun scores_idx_loop ::
  "ext \<Rightarrow> pyval \<Rightarrow> pyval \<Rightarrow> pyval \<Rightarrow> nat list \<Rightarrow> table \<Rightarrow> state \<Rightarrow> state \<times> table" where
  "scores_idx_loop x year d response [] df st = (st, df)"
| "scores_idx_loop x year d response (idx # idxs) df st =
     (case score_rows x year d response idx of
        Inl e \<Rightarrow>
          scores_idx_loop x year d response idxs df
            (logging ERROR ''Error processing competitor index {competitor_idx}: {e}'' st)
      | Inr df_temp \<Rightarrow> scores_idx_loop x year d response idxs (pd_concat df df_temp) st)"

text \<open>The \<^verbatim>\<open>for page\<close> loop, inside the outer \<^verbatim>\<open>try\<close> only: an exception of the fetch
  or of the row count ends it.\<close>

fun scores_page_loop ::
  "ext \<Rightarrow> pyval \<Rightarrow> pyval \<Rightarrow> pyval \<Rightarrow> pyval \<Rightarrow> int list \<Rightarrow> table \<Rightarrow> state
   \<Rightarrow> state \<times> table \<times> exn option" where
  "scores_page_loop x year d total_pages total_results [] df st = (st, df, None)"
| "scores_page_loop x year d total_pages total_results (page # pages) df st0 =
     (let st = logging INFO ''Fetching data for page {page}.'' st0 in
      case games_json_dump x year d (PInt page) st of
        (st, Inl e) \<Rightarrow> (st, df, Some e)
      | (st, Inr response) \<Rightarrow>
          (case exn_bind (scores_num_results total_pages total_results page) py_range of
             Inl e \<Rightarrow> (st, df, Some e)
           | Inr idxs \<Rightarrow>
               (case scores_idx_loop x year d response idxs df st of
                  (st, df) \<Rightarrow>
                    scores_page_loop x year d total_pages total_results pages df st)))"

fun scores_div_loop ::
  "ext \<Rightarrow> pyval \<Rightarrow> pyval list \<Rightarrow> table \<Rightarrow> state \<Rightarrow> state \<times> table \<times> exn option" where
  "scores_div_loop x year [] df st = (st, df, None)"
| "scores_div_loop x year (current_division # ds) df st0 =
     (let st = logging INFO ''Processing division {current_division} for year {year}.'' st0 in
      case games_info x year current_division st of
        (st, Inl e) \<Rightarrow> (st, df, Some e)
      | (st, Inr i) \<Rightarrow>
          let total_pages = info_total_pages i;
              total_results = info_total_competitors i;
              st = logging INFO ''Total pages: {total_pages}, Total results: {total_results}.'' st
          in
          (case exn_bind (py_add_int total_pages 1) (py_range2 (PInt 1)) of
             Inl e \<Rightarrow> (st, df, Some e)
           | Inr pages \<Rightarrow>
               (case scores_page_loop x year current_division total_pages total_results
                       pages df st of
                  (st, df, Some e) \<Rightarrow> (st, df, Some e)
                | (st, df, None) \<Rightarrow> scores_div_loop x year ds df st)))"

text \<open>Lines 240 to 243: the rank sentinels.\<close>

definition rank_sentinels :: "pyval list" where
  "rank_sentinels = [PStr ''CUT'', PStr ''WD'', PStr ''DNF'']"

text \<open>One statement \<^verbatim>\<open>df.loc[p(df['rank']), c] = v\<close>: the mask is computed from the
  \<open>rank\<close> column, cell by cell.\<close>

definition loc_where_rank :: "(pyval \<Rightarrow> bool) \<Rightarrow> label \<Rightarrow> pyval \<Rightarrow> table \<Rightarrow> exn + table" where
  "loc_where_rank p c v df =
     exn_bind (get_column df (PStr ''rank'')) (\<lambda>r. Inr (loc_set (map p r) c v df))"

definition rank_recode :: "table \<Rightarrow> exn + table" where
  "rank_recode df =
     exn_bind (loc_where_rank (\<lambda>v. v = PStr ''CUT'') (PStr ''rankReason'') (PStr ''CUT'') df)
       (\<lambda>df.
     exn_bind (loc_where_rank (\<lambda>v. v = PStr ''WD'') (PStr ''rankReason'') (PStr ''WD'') df)
       (\<lambda>df.
     exn_bind (loc_where_rank (\<lambda>v. v = PStr ''DNF'') (PStr ''rankReason'') (PStr ''DNF'') df)
       (\<lambda>df.
     loc_where_rank (\<lambda>v. v \<in> set rank_sentinels) (PStr ''rank'') (PInt 0) df)))"

text \<open>What the four statements do to one row, read off them in order.\<close>

definition recode_row :: "row \<Rightarrow> row" where
  "recode_row r =
     (let r1 = (if cell r (PStr ''rank'') = PStr ''CUT''
                then AList.update (PStr ''rankReason'') (PStr ''CUT'') r else r);
          r2 = (if cell r1 (PStr ''rank'') = PStr ''WD''
                then AList.update (PStr ''rankReason'') (PStr ''WD'') r1 else r1);
          r3 = (if cell r2 (PStr ''rank'') = PStr ''DNF''
                then AList.update (PStr ''rankReason'') (PStr ''DNF'') r2 else r2)
      in if cell r3 (PStr ''rank'') \<in> set rank_sentinels
         then AList.update (PStr ''rank'') (PInt 0) r3 else r3)"

text \<open>Lines 240 to 245.\<close>

definition scores_transform :: "ext \<Rightarrow> table \<Rightarrow> exn + table" where
  "scores_transform x df =
     exn_bind (rank_recode df)
       (\<lambda>df.
     exn_bind (convert_object_columns_to_numeric x df)
       (\<lambda>df.
     update_column (PStr ''scoreIsWeightInKg'') (PStr ''scoreDisplay'')
       (apply_series (lb_to_kg x)) df))"

text \<open>The body of the outer \<^verbatim>\<open>try\<close>, lines 204 to 248.\<close>

definition scores_try :: "ext \<Rightarrow> pyval \<Rightarrow> pyval list \<Rightarrow> state \<Rightarrow> state \<times> (exn + table)" where
  "scores_try x year division_value st0 =
     (case scores_div_loop x year division_value DataFrame_empty st0 of
        (st, df, Some e) \<Rightarrow> (st, Inl e)
      | (st, df, None) \<Rightarrow>
          let st = logging INFO ''Transforming rank and other columns.'' st in
          (case scores_transform x df of
             Inl e \<Rightarrow> (st, Inl e)
           | Inr df \<Rightarrow>
               (logging INFO ''Dataframe transformation complete. Returning dataframe.'' st,
                Inr df)))"

text \<open>The result is an \<open>exn + table\<close> as for the other functions, so that a caller's
  \<^verbatim>\<open>try\<close> around the call has both branches.\<close>

definition games_info_scores ::
  "ext \<Rightarrow> pyval \<Rightarrow> pyval \<Rightarrow> state \<Rightarrow> state \<times> (exn + table)" where
  "games_info_scores x year division st0 =
     (let division_value = division_value_scores division in
      case scores_try x year division_value st0 of
        (st, Inr df) \<Rightarrow> (st, Inr df)
      | (st, Inl e) \<Rightarrow>
          (logging CRITICAL ''Error occurred in games_info_scores: {e}'' st,
           Inr DataFrame_empty))"

subsection \<open>\<^verbatim>\<open>games_info_scores_multiple\<close>\<close>

text \<open>The \<^verbatim>\<open>for year\<close> loop, lines 280 to 288. The handler's message reads \<^verbatim>\<open>div\<close>, a
  name the function never binds, so reaching the handler raises \<open>NameError\<close> before
  anything is logged.\<close>

fun scores_year_loop ::
  "ext \<Rightarrow> pyval \<Rightarrow> int list \<Rightarrow> table \<Rightarrow> state \<Rightarrow> state \<times> (exn + table)" where
  "scores_year_loop x division [] df st = (st, Inr df)"
| "scores_year_loop x division (year # years) df st0 =
     (let st = logging INFO ''Fetching games info score for year {year}'' st0 in
      case games_info_scores x (PInt year) division st of
        (st, Inl e) \<Rightarrow> (st, Inl (NameError ''name 'div' is not defined''))
      | (st, Inr df_temp) \<Rightarrow>
          (case set_column (PStr ''year'') (PInt year) df_temp of
             Inl e \<Rightarrow> (st, Inl (NameError ''name 'div' is not defined''))
           | Inr df_temp \<Rightarrow> scores_year_loop x division years (pd_concat df df_temp) st))"

definition games_info_scores_multiple ::
  "ext \<Rightarrow> pyval \<Rightarrow> pyval \<Rightarrow> pyval \<Rightarrow> state \<Rightarrow> state \<times> (exn + table)" where
  "games_info_scores_multiple x year_from year_too division st =
     (if \<not> isinstance_int year_from then (st, Inl (TypeError ''year_from should be an integer''))
      else if \<not> isinstance_int year_too then
        (st, Inl (TypeError ''year_too should be an integer''))
      else if \<not> isinstance_int division then
        (st, Inl (TypeError ''division should be an integer''))
      else
        case exn_bind (py_add_int year_too 1) (py_range2 year_from) of
          Inl e \<Rightarrow> (st, Inl e)
        | Inr years \<Rightarrow> scores_year_loop x division years DataFrame_empty st)"

section \<open>Concrete environments for the instances below\<close>

text \<open>A scripted HTTP client: the n-th request of a run gets the n-th answer of the
  script, whatever its URL; past the script every request fails.\<close>

definition replay :: "(exn + pyval) list \<Rightarrow> string list \<Rightarrow> string \<Rightarrow> exn + (exn + pyval)" where
  "replay script history url =
     (if length history < length script then
        (case script ! length history of Inl e \<Rightarrow> Inl e | Inr json \<Rightarrow> Inr (Inr json))
      else Inl RequestException)"

text \<open>\<^verbatim>\<open>json_normalize\<close> on a list of flat records: one row per record.\<close>

fun flat_json_normalize :: "pyval \<Rightarrow> exn + table" where
  "flat_json_normalize (PList records) =
     Inr (foldl pd_concat DataFrame_empty (map DataFrame_record records))"
| "flat_json_normalize v = Inl OtherException"

definition sample_ext :: "(exn + pyval) list \<Rightarrow> ext" where
  "sample_ext script =
     \<lparr>requests_get = replay script,
      json_normalize = flat_json_normalize,
      convert_object_columns_to_numeric = Inr,
      lb_to_kg = (\<lambda>v. Inr PNaN),
      inch_to_cm = (\<lambda>v. Inr PNaN)\<rparr>"

definition state0 :: state where
  "state0 = \<lparr>requests = [], logged = []\<rparr>"

text \<open>A leaderboard page with the given totals and rows, and a leaderboard row.\<close>

definition sample_page :: "int \<Rightarrow> int \<Rightarrow> pyval list \<Rightarrow> pyval" where
  "sample_page total_pages total_competitors leaderboard_rows =
     PDict [(''pagination'', PDict [(''totalPages'', PInt total_pages),
                                    (''totalCompetitors'', PInt total_competitors)]),
            (''competition'', PDict [(''competitionId'', PInt 7)]),
            (''ordinals'', PList [PInt 1, PInt 2]),
            (''leaderboardRows'', PList leaderboard_rows)]"

definition sample_competitor :: "int \<Rightarrow> string \<Rightarrow> string \<Rightarrow> pyval" where
  "sample_competitor competitor_id overall_rank event_rank =
     PDict [(''entrant'', PDict [(''competitorId'', PInt competitor_id),
                                 (''weight'', PStr ''205 lb''),
                                 (''height'', PStr ''70 in''),
                                 (''age'', PStr ''30'')]),
            (''overallScore'', PStr ''100''),
            (''overallRank'', PStr overall_rank),
            (''scores'', PList [PDict [(''rank'', PStr event_rank),
                                       (''scoreDisplay'', PStr ''300 lb'')]])]"

text \<open>A leaderboard row with the given score records.\<close>

definition sample_scored :: "int \<Rightarrow> pyval list \<Rightarrow> pyval" where
  "sample_scored competitor_id scores =
     PDict [(''entrant'', PDict [(''competitorId'', PInt competitor_id)]),
            (''scores'', PList scores)]"

text \<open>An HTTP client that answers by URL, whatever was requested before, and a page of
  \<open>n\<close> leaderboard rows.\<close>

definition url_server ::
  "(string \<times> pyval) list \<Rightarrow> string list \<Rightarrow> string \<Rightarrow> exn + (exn + pyval)" where
  "url_server pages history url =
     (case map_of pages url of None \<Rightarrow> Inl RequestException | Some json \<Rightarrow> Inr (Inr json))"

definition served_ext :: "(string \<times> pyval) list \<Rightarrow> ext" where
  "served_ext pages =
     \<lparr>requests_get = url_server pages,
      json_normalize = flat_json_normalize,
      convert_object_columns_to_numeric = Inr,
      lb_to_kg = (\<lambda>v. Inr PNaN),
      inch_to_cm = (\<lambda>v. Inr PNaN)\<rparr>"

definition sample_rows :: "nat \<Rightarrow> pyval list" where
  "sample_rows n = map (\<lambda>j. sample_competitor (int j) ''1'' ''1'') [0..<n]"

section \<open>The rows a fetched page yields\<close>

text \<open>The rows that lines 125 to 131 make of the leaderboard rows \<open>0, ..., n - 1\<close> of a
  page, one after the other, up to the first on which these lines raise; and the rows that
  lines 228 to 233 make of their score lists, where a leaderboard row on which these
  lines raise yields none.\<close>

definition competitor_rows_of_page :: "pyval \<Rightarrow> nat \<Rightarrow> row list" where
  "competitor_rows_of_page response n =
     concat (map (\<lambda>idx. rows (projr (competitor_row response idx)))
               (takeWhile (\<lambda>idx. \<not> isl (competitor_row response idx)) [0..<n]))"

definition score_rows_of_page :: "ext \<Rightarrow> pyval \<Rightarrow> pyval \<Rightarrow> pyval \<Rightarrow> nat \<Rightarrow> row list" where
  "score_rows_of_page x year d response n =
     concat (map (\<lambda>idx. case score_rows x year d response idx of Inl e \<Rightarrow> [] | Inr t \<Rightarrow> rows t)
               [0..<n])"

section \<open>Properties\<close>

subsection \<open>Auxiliary facts\<close>

lemma exn_bind_Inr: "exn_bind r f = Inr y \<Longrightarrow> \<exists>x. r = Inr x \<and> f x = Inr y"
  by (cases r) (simp_all add: exn_bind_def)

lemma cell_update: "cell (AList.update c v r) c' = (if c' = c then v else cell r c')"
  by (simp add: cell_def update_conv')

lemma loc_where_rank_Inr:
  assumes "loc_where_rank p c v df = Inr df'"
  shows "rows df' = map (\<lambda>r. if p (cell r (PStr ''rank'')) then AList.update c v r else r) (rows df)"
    and "PStr ''rank'' \<in> set (columns df')"
proof -
  have k: "PStr ''rank'' \<in> set (columns df)"
    using assms by (auto simp: loc_where_rank_def get_column_def exn_bind_def split: if_splits)
  then have d: "df' = loc_set (map p (map (\<lambda>r. cell r (PStr ''rank'')) (rows df))) c v df"
    using assms by (simp add: loc_where_rank_def get_column_def exn_bind_def)
  show "rows df' = map (\<lambda>r. if p (cell r (PStr ''rank'')) then AList.update c v r else r) (rows df)"
    unfolding d by (simp add: loc_set_def zip_map2 zip_same_conv_map o_def)
  show "PStr ''rank'' \<in> set (columns df')"
    unfolding d using k by (simp add: loc_set_def add_column_def)
qed

lemma rank_recode_rows:
  assumes "rank_recode df = Inr df'"
  shows "rows df' = map recode_row (rows df)"
proof -
  from assms obtain d1 d2 d3 where
      1: "loc_where_rank (\<lambda>v. v = PStr ''CUT'') (PStr ''rankReason'') (PStr ''CUT'') df = Inr d1"
  and 2: "loc_where_rank (\<lambda>v. v = PStr ''WD'') (PStr ''rankReason'') (PStr ''WD'') d1 = Inr d2"
  and 3: "loc_where_rank (\<lambda>v. v = PStr ''DNF'') (PStr ''rankReason'') (PStr ''DNF'') d2 = Inr d3"
  and 4: "loc_where_rank (\<lambda>v. v \<in> set rank_sentinels) (PStr ''rank'') (PInt 0) d3 = Inr df'"
    unfolding rank_recode_def by (blast dest: exn_bind_Inr)
  show ?thesis
    unfolding loc_where_rank_Inr(1)[OF 4] loc_where_rank_Inr(1)[OF 3]
      loc_where_rank_Inr(1)[OF 2] loc_where_rank_Inr(1)[OF 1]
    by (simp add: recode_row_def Let_def o_def)
qed

lemma recode_row_sentinel:
  "cell r (PStr ''rank'') \<in> set rank_sentinels \<Longrightarrow>
     cell (recode_row r) (PStr ''rankReason'') = cell r (PStr ''rank'')
     \<and> cell (recode_row r) (PStr ''rank'') = PInt 0"
  by (auto simp: recode_row_def rank_sentinels_def cell_update Let_def)

lemma recode_row_other:
  "cell r (PStr ''rank'') \<notin> set rank_sentinels \<Longrightarrow> recode_row r = r"
  by (auto simp: recode_row_def rank_sentinels_def cell_update Let_def)

lemma games_info_scores_Inr:
  "\<exists>st' df. games_info_scores x year division st = (st', Inr df)"
  by (auto simp: games_info_scores_def split: prod.splits sum.splits)

lemma games_json_dump_not_int:
  "\<not> (isinstance_int year \<and> isinstance_int division \<and> isinstance_int page) \<Longrightarrow>
     (\<exists>msg. snd (games_json_dump x year division page st) = Inl (TypeError msg))
     \<and> requests (fst (games_json_dump x year division page st)) = requests st"
  by (auto simp: games_json_dump_def Let_def logging_def)

lemma games_json_dump_int:
  assumes "isinstance_int year" "isinstance_int division" "isinstance_int page"
  shows "requests (fst (games_json_dump x year division page st))
           = requests st @ [request_url year division page]"
    and "snd (games_json_dump x year division page st)
       = (case requests_get x (requests st) (request_url year division page) of
            Inl e \<Rightarrow> Inl e | Inr response \<Rightarrow> response)"
  using assms
  by (simp_all add: games_json_dump_def Let_def logging_def request_failed_def split: sum.splits)

lemma rows_broadcast_column: "length (rows (broadcast_column c v df)) = length (rows df)"
  by (simp add: broadcast_column_def)

lemma set_column_rows:
  "set_column c v df = Inr df' \<Longrightarrow> rows df \<noteq> [] \<Longrightarrow> length (rows df') = length (rows df)"
  by (cases v) (auto simp: broadcast_column_def assign_column_def split: if_splits)

lemma set_column_PInt: "set_column c (PInt n) df = Inr (broadcast_column c (PInt n) df)"
  by simp

lemma rows_DataFrame_record: "length (rows (DataFrame_record v)) = 1"
  by (cases v) simp_all

lemma competitor_row_one_row:
  assumes "competitor_row response idx = Inr t"
  shows "length (rows t) = 1"
proof -
  from assms obtain e s r d1 where
    1: "set_column (PStr ''overallScore'') s (DataFrame_record e) = Inr d1"
    and 2: "set_column (PStr ''overallRank'') r d1 = Inr t"
    unfolding competitor_row_def by (auto dest!: exn_bind_Inr)
  from set_column_rows[OF 1] have "length (rows d1) = 1"
    by (simp add: rows_DataFrame_record flip: length_0_conv)
  with set_column_rows[OF 2] show ?thesis
    by (simp flip: length_0_conv)
qed

lemma rows_pd_concat: "rows (pd_concat a b) = rows a @ rows b"
  by (simp add: pd_concat_def)

lemma competitors_on_page_int:
  "competitors_on_page (PInt total_pages) (PInt total_competitors) page =
     Inr [0..<(if page < total_pages then 50 else nat (total_competitors mod 50))]"
  by (simp add: competitors_on_page_def exn_bind_def py_range_def)

lemma scores_year_loop_Inr:
  "\<exists>st' t. scores_year_loop x division years df st = (st', Inr t)"
proof (induction years arbitrary: df st)
  case Nil
  then show ?case by simp
next
  case (Cons year years)
  obtain st1 t1 where g: "games_info_scores x (PInt year) division
        (logging INFO ''Fetching games info score for year {year}'' st) = (st1, Inr t1)"
    using games_info_scores_Inr by blast
  from Cons.IH[of "pd_concat df (broadcast_column (PStr ''year'') (PInt year) t1)" st1] g
  show ?case by simp
qed

lemma year_range_Inr:
  "isinstance_int a \<Longrightarrow> isinstance_int b \<Longrightarrow>
     \<exists>ys. exn_bind (py_add_int b 1) (py_range2 a) = Inr ys"
  by (cases a; cases b) (simp_all add: exn_bind_def py_range2_def)

lemma competitors_idx_loop_rows:
  "rows (fst (competitors_idx_loop response idxs df))
     = rows df @ rows (fst (competitors_idx_loop response idxs DataFrame_empty))
   \<and> snd (competitors_idx_loop response idxs df)
     = snd (competitors_idx_loop response idxs DataFrame_empty)"
proof (induction idxs arbitrary: df)
  case Nil
  show ?case by (simp add: DataFrame_empty_def)
next
  case (Cons idx idxs)
  show ?case
  proof (cases "competitor_row response idx")
    case (Inl e)
    then show ?thesis by (simp add: DataFrame_empty_def)
  next
    case (Inr t)
    from Cons.IH[of "pd_concat df t"] Cons.IH[of "pd_concat DataFrame_empty t"] Inr
    show ?thesis by (simp add: rows_pd_concat DataFrame_empty_def)
  qed
qed

lemma competitors_page_prefix:
  "prefix (rows df) (rows (snd (competitors_page x year d i page df st)))"
proof -
  have "prefix (rows df) (rows (fst (competitors_idx_loop response idxs df)))" for response idxs
    using competitors_idx_loop_rows[of response idxs df] by simp
  then have "prefix (rows df) (rows df')" if "competitors_idx_loop response idxs df = (df', r)"
    for response idxs df' r
    using that by (metis fst_conv)
  then show ?thesis
    by (auto simp: competitors_page_def Let_def split: prod.splits sum.splits option.splits)
qed

lemma competitors_page_loop_prefix:
  "prefix (rows df) (rows (snd (competitors_page_loop x year d i pages df st)))"
proof (induction pages arbitrary: df st)
  case Nil
  show ?case by simp
next
  case (Cons page pages)
  obtain st1 df1 where p: "competitors_page x year d i page df st = (st1, df1)"
    by (cases "competitors_page x year d i page df st")
  from competitors_page_prefix[of df x year d i page st] p have "prefix (rows df) (rows df1)"
    by simp
  with Cons.IH[of df1 st1] p show ?case
    by (auto intro: prefix_order.trans)
qed

lemma competitors_page_loop_append:
  "competitors_page_loop x year d i (ps @ qs) df st
     = competitors_page_loop x year d i qs
         (snd (competitors_page_loop x year d i ps df st))
         (fst (competitors_page_loop x year d i ps df st))"
  by (induction ps arbitrary: df st) (auto split: prod.splits)

lemma competitors_division_prefix:
  "prefix (rows df) (rows (snd (competitors_division x year d df st)))"
  using competitors_page_loop_prefix
  by (auto simp: competitors_division_def Let_def split: prod.splits sum.splits)

lemma competitors_div_loop_prefix:
  "prefix (rows df) (rows (snd (competitors_div_loop x year ds df st)))"
proof (induction ds arbitrary: df st)
  case Nil
  show ?case by simp
next
  case (Cons d ds)
  obtain st1 df1 where p: "competitors_division x year d df st = (st1, df1)"
    by (cases "competitors_division x year d df st")
  from competitors_division_prefix[of df x year d st] p have "prefix (rows df) (rows df1)"
    by simp
  with Cons.IH[of df1 st1] p show ?case
    by (auto intro: prefix_order.trans)
qed

lemma competitors_div_loop_append:
  "competitors_div_loop x year (ds @ es) df st
     = competitors_div_loop x year es
         (snd (competitors_div_loop x year ds df st))
         (fst (competitors_div_loop x year ds df st))"
  by (induction ds arbitrary: df st) (auto split: prod.splits)

lemma competitors_page_ok:
  assumes "snd (games_json_dump x year d (PInt page)
                  (logging INFO ''Fetching page {page} for division {div}'' st)) = Inr response"
    and "competitors_on_page (info_total_pages i) (info_total_competitors i) page = Inr idxs"
    and "competitors_idx_loop response idxs DataFrame_empty = (t, None)"
  shows "rows (snd (competitors_page x year d i page df st)) = rows df @ rows t"
proof -
  obtain st1 where g: "games_json_dump x year d (PInt page)
                  (logging INFO ''Fetching page {page} for division {div}'' st) = (st1, Inr response)"
    using assms(1) by (cases "games_json_dump x year d (PInt page)
                  (logging INFO ''Fetching page {page} for division {div}'' st)") simp
  obtain df' r where l: "competitors_idx_loop response idxs df = (df', r)"
    by (cases "competitors_idx_loop response idxs df")
  from competitors_idx_loop_rows[of response idxs df] l assms(3)
  have "rows df' = rows df @ rows t" "r = None"
    by simp_all
  with g assms(2) l show ?thesis
    by (simp add: competitors_page_def)
qed

lemma competitors_page_failed:
  assumes "snd (games_json_dump x year d (PInt page)
                  (logging INFO ''Fetching page {page} for division {div}'' st)) = Inl e"
  shows "snd (competitors_page x year d i page df st) = df
    \<and> last (logged (fst (competitors_page x year d i page df st)))
       = (ERROR, ''Error processing page {page} for division {div}: {e}'')"
proof -
  obtain st1 where g: "games_json_dump x year d (PInt page)
                  (logging INFO ''Fetching page {page} for division {div}'' st) = (st1, Inl e)"
    using assms(1) by (cases "games_json_dump x year d (PInt page)
                  (logging INFO ''Fetching page {page} for division {div}'' st)") simp
  then show ?thesis
    by (simp add: competitors_page_def logging_def)
qed

lemma last_page_count_eq:
  fixes total_pages total_competitors :: int
  assumes "(total_pages - 1) * 50 < total_competitors" and "total_competitors < total_pages * 50"
  shows "total_competitors mod 50 = total_competitors - (total_pages - 1) * 50"
proof -
  have "total_competitors = (total_competitors - (total_pages - 1) * 50) + 50 * (total_pages - 1)"
    by simp
  then have "total_competitors mod 50 = (total_competitors - (total_pages - 1) * 50) mod 50"
    by (metis mod_mult_self2)
  also have "\<dots> = total_competitors - (total_pages - 1) * 50"
    using assms by (intro mod_pos_pos_trivial) (simp_all add: algebra_simps)
  finally show ?thesis .
qed

lemma apply_series_Inr:
  "apply_series f vs = Inr ws \<Longrightarrow>
     length ws = length vs \<and> (\<forall>i<length vs. f (vs ! i) = Inr (ws ! i))"
proof (induction vs arbitrary: ws)
  case Nil
  then show ?case by simp
next
  case (Cons v vs)
  from Cons.prems obtain w ws' where w: "f v = Inr w" and ws': "apply_series f vs = Inr ws'"
    and eq: "ws = w # ws'"
    by (auto dest!: exn_bind_Inr)
  from Cons.IH[OF ws'] w eq show ?case
    by (auto simp: nth_Cons split: nat.splits)
qed

lemma findall_digits_Inr: "findall_digits v = Inr w \<Longrightarrow> \<exists>l. w = PList l"
  by (cases v) auto

lemma update_column_Inr:
  assumes "update_column dst src f df = Inr df'"
  shows "\<exists>ws. f (map (\<lambda>r. cell r src) (rows df)) = Inr ws \<and> src \<in> set (columns df)
           \<and> df' = assign_column dst ws df"
  using assms
  by (auto simp: update_column_def get_column_def dest!: exn_bind_Inr split: if_splits)

lemma competitors_transform_raises:
  assumes "rows df \<noteq> []"
  shows "\<exists>e. competitors_transform x df = Inl e"
proof (cases "competitors_transform x df")
  case (Inl e)
  then show ?thesis by blast
next
  case (Inr df')
  then obtain d1 d2 d3 where
      1: "update_column (PStr ''weight'') (PStr ''weight'') (apply_series findall_digits) df = Inr d1"
  and 2: "update_column (PStr ''overallRank'') (PStr ''overallRank'')
            (apply_series findall_digits) d1 = Inr d2"
  and 3: "update_column (PStr ''overallRank'') (PStr ''overallRank'') astype_int d2 = Inr d3"
    unfolding competitors_transform_def by (blast dest: exn_bind_Inr)
  from update_column_Inr[OF 1] obtain ws1 where
    w1: "apply_series findall_digits (map (\<lambda>r. cell r (PStr ''weight'')) (rows df)) = Inr ws1"
    and d1: "d1 = assign_column (PStr ''weight'') ws1 df"
    by blast
  from apply_series_Inr[OF w1] have l1: "length (rows d1) = length (rows df)"
    by (simp add: d1 assign_column_def)
  from update_column_Inr[OF 2] obtain ws2 where
    w2: "apply_series findall_digits (map (\<lambda>r. cell r (PStr ''overallRank'')) (rows d1)) = Inr ws2"
    and d2: "d2 = assign_column (PStr ''overallRank'') ws2 d1"
    by blast
  from apply_series_Inr[OF w2] have l2: "length ws2 = length (rows d1)"
    and f2: "\<forall>i<length (rows d1).
       findall_digits (map (\<lambda>r. cell r (PStr ''overallRank'')) (rows d1) ! i) = Inr (ws2 ! i)"
    by simp_all
  from l1 assms have p: "0 < length (rows d1)" by simp
  with f2 obtain l where l: "ws2 ! 0 = PList l"
    by (metis findall_digits_Inr length_map)
  from p l2 have c: "cell (rows d2 ! 0) (PStr ''overallRank'') = ws2 ! 0"
    by (simp add: d2 assign_column_def cell_update)
  from update_column_Inr[OF 3] obtain ws3 where
    w3: "apply_series astype_cell (map (\<lambda>r. cell r (PStr ''overallRank'')) (rows d2)) = Inr ws3"
    by (auto simp: astype_int_def)
  from p l2 have p2: "0 < length (rows d2)"
    by (simp add: d2 assign_column_def)
  with apply_series_Inr[OF w3] have "astype_cell (cell (rows d2 ! 0) (PStr ''overallRank'')) = Inr (ws3 ! 0)"
    by auto
  with c l show ?thesis by simp
qed

lemma competitors_idx_loop_grows:
  "fst (competitors_idx_loop response idxs df) = df
   \<or> rows (fst (competitors_idx_loop response idxs df)) \<noteq> []"
proof (induction idxs arbitrary: df)
  case Nil
  show ?case by simp
next
  case (Cons idx idxs)
  show ?case
  proof (cases "competitor_row response idx")
    case (Inl e)
    then show ?thesis by simp
  next
    case (Inr t)
    from competitor_row_one_row[OF Inr] have "rows (pd_concat df t) \<noteq> []"
      by (auto simp: rows_pd_concat)
    with competitors_idx_loop_rows[of response idxs "pd_concat df t"] Inr
    show ?thesis by auto
  qed
qed

lemma competitors_page_grows:
  "snd (competitors_page x year d i page df st) = df
   \<or> rows (snd (competitors_page x year d i page df st)) \<noteq> []"
proof -
  have "df' = df \<or> rows df' \<noteq> []" if "competitors_idx_loop response idxs df = (df', r)"
    for response idxs df' r
    using competitors_idx_loop_grows[of response idxs df] that by simp
  then show ?thesis
    by (auto simp: competitors_page_def Let_def split: prod.splits sum.splits option.splits)
qed

lemma prefix_nonempty: "prefix xs ys \<Longrightarrow> xs \<noteq> [] \<Longrightarrow> ys \<noteq> []"
  by auto

lemma competitors_page_loop_grows:
  "snd (competitors_page_loop x year d i pages df st) = df
   \<or> rows (snd (competitors_page_loop x year d i pages df st)) \<noteq> []"
proof (induction pages arbitrary: df st)
  case Nil
  show ?case by simp
next
  case (Cons page pages)
  obtain st1 df1 where p: "competitors_page x year d i page df st = (st1, df1)"
    by (cases "competitors_page x year d i page df st")
  from competitors_page_grows[of x year d i page df st] p
  have "df1 = df \<or> rows df1 \<noteq> []" by simp
  then show ?case
  proof
    assume "df1 = df"
    with Cons.IH[of df1 st1] p show ?thesis by simp
  next
    assume "rows df1 \<noteq> []"
    with competitors_page_loop_prefix[of df1 x year d i pages st1] p show ?thesis
      by (auto dest: prefix_nonempty)
  qed
qed

lemma competitors_division_grows:
  "snd (competitors_division x year d df st) = df
   \<or> rows (snd (competitors_division x year d df st)) \<noteq> []"
  using competitors_page_loop_grows
  by (auto simp: competitors_division_def Let_def split: prod.splits sum.splits)

lemma competitors_div_loop_grows:
  "snd (competitors_div_loop x year ds df st) = df
   \<or> rows (snd (competitors_div_loop x year ds df st)) \<noteq> []"
proof (induction ds arbitrary: df st)
  case Nil
  show ?case by simp
next
  case (Cons d ds)
  obtain st1 df1 where p: "competitors_division x year d df st = (st1, df1)"
    by (cases "competitors_division x year d df st")
  from competitors_division_grows[of x year d df st] p
  have "df1 = df \<or> rows df1 \<noteq> []" by simp
  then show ?case
  proof
    assume "df1 = df"
    with Cons.IH[of df1 st1] p show ?thesis by simp
  next
    assume "rows df1 \<noteq> []"
    with competitors_div_loop_prefix[of df1 x year ds st1] p show ?thesis
      by (auto dest: prefix_nonempty)
  qed
qed

lemma served_fetch:
  assumes "\<forall>history. requests_get x history (request_url (PInt y) (PInt dv) (PInt p))
             = Inr (Inr r)"
  shows "snd (games_json_dump x (PInt y) (PInt dv) (PInt p) st) = Inr r"
  by (simp add: games_json_dump_int(2) assms)

lemma served_info:
  assumes "\<forall>history. requests_get x history (request_url (PInt y) (PInt dv) (PInt 1))
             = Inr (Inr r)"
    and "games_info_fields r = Inr i"
  shows "snd (games_info x (PInt y) (PInt dv) st) = Inr i"
proof -
  let ?st = "logging INFO ''Fetching games info for year {year} and division {division}'' st"
  obtain st1 where "games_json_dump x (PInt y) (PInt dv) (PInt 1) ?st = (st1, Inr r)"
    using served_fetch[OF assms(1), of ?st]
    by (cases "games_json_dump x (PInt y) (PInt dv) (PInt 1) ?st") simp
  with assms(2) show ?thesis
    by (simp add: games_info_def)
qed

lemma competitors_idx_loop_takeWhile:
  "rows (fst (competitors_idx_loop response idxs df))
     = rows df @ concat (map (\<lambda>idx. rows (projr (competitor_row response idx)))
                           (takeWhile (\<lambda>idx. \<not> isl (competitor_row response idx)) idxs))"
proof (induction idxs arbitrary: df)
  case Nil
  show ?case by simp
next
  case (Cons idx idxs)
  show ?case
  proof (cases "competitor_row response idx")
    case (Inl e)
    then show ?thesis by simp
  next
    case (Inr t)
    with Cons.IH[of "pd_concat df t"] show ?thesis
      by (simp add: rows_pd_concat)
  qed
qed

lemma competitors_page_served:
  assumes "snd (games_json_dump x year d (PInt page)
                  (logging INFO ''Fetching page {page} for division {div}'' st)) = Inr response"
    and "competitors_on_page (info_total_pages i) (info_total_competitors i) page = Inr [0..<n]"
  shows "rows (snd (competitors_page x year d i page df st))
           = rows df @ competitor_rows_of_page response n"
proof -
  obtain st1 where g: "games_json_dump x year d (PInt page)
                  (logging INFO ''Fetching page {page} for division {div}'' st) = (st1, Inr response)"
    using assms(1) by (cases "games_json_dump x year d (PInt page)
                  (logging INFO ''Fetching page {page} for division {div}'' st)") simp
  obtain df' r where l: "competitors_idx_loop response [0..<n] df = (df', r)"
    by (cases "competitors_idx_loop response [0..<n] df")
  from competitors_idx_loop_takeWhile[of response "[0..<n]" df] l
  have "rows df' = rows df @ competitor_rows_of_page response n"
    by (simp add: competitor_rows_of_page_def)
  with g assms(2) l show ?thesis
    by (cases r) (simp_all add: competitors_page_def)
qed

lemma competitors_page_loop_served:
  assumes "\<forall>page\<in>{1..tp}. \<forall>history.
             requests_get x history (request_url (PInt y) (PInt dv) (PInt page))
               = Inr (Inr (resp page))"
    and "set ps \<subseteq> {1..tp}"
  shows "rows (snd (competitors_page_loop x (PInt y) (PInt dv) (cid, PInt tp, PInt tc, ev) ps df st))
     = rows df @ concat (map (\<lambda>page. competitor_rows_of_page (resp page)
                               (if page < tp then 50 else nat (tc mod 50))) ps)"
  using assms(2)
proof (induction ps arbitrary: df st)
  case Nil
  show ?case by simp
next
  case (Cons p ps)
  let ?i = "(cid, PInt tp, PInt tc, ev)"
  obtain st1 df1 where c: "competitors_page x (PInt y) (PInt dv) ?i p df st = (st1, df1)"
    by (cases "competitors_page x (PInt y) (PInt dv) ?i p df st")
  from Cons.prems assms(1) have s: "\<forall>history.
       requests_get x history (request_url (PInt y) (PInt dv) (PInt p)) = Inr (Inr (resp p))"
    by simp
  have o: "competitors_on_page (info_total_pages ?i) (info_total_competitors ?i) p
        = Inr [0..<(if p < tp then 50 else nat (tc mod 50))]"
    by (simp add: competitors_on_page_int info_total_pages_def info_total_competitors_def)
  from competitors_page_served[OF served_fetch[OF s] o, of df st] c
  have 1: "rows df1 = rows df @ competitor_rows_of_page (resp p)
                                 (if p < tp then 50 else nat (tc mod 50))"
    by simp
  from Cons.prems have "set ps \<subseteq> {1..tp}" by simp
  from Cons.IH[OF this, of df1 st1] c 1 show ?case
    by simp
qed

lemma page_range_int: "exn_bind (py_add_int (PInt tp) 1) (py_range2 (PInt 1)) = Inr [1..tp]"
  by (simp add: exn_bind_def py_range2_def)

lemma competitors_division_served:
  assumes "1 \<le> tp"
    and "\<forall>page\<in>{1..tp}. \<forall>history.
             requests_get x history (request_url (PInt y) (PInt dv) (PInt page))
               = Inr (Inr (resp page))"
    and "games_info_fields (resp 1) = Inr (cid, PInt tp, PInt tc, ev)"
  shows "rows (snd (competitors_division x (PInt y) (PInt dv) df st))
     = rows df @ concat (map (\<lambda>page. competitor_rows_of_page (resp page)
                               (if page < tp then 50 else nat (tc mod 50))) [1..tp])"
proof -
  let ?st = "logging INFO ''Processing division {div}'' st"
  let ?i = "(cid, PInt tp, PInt tc, ev)"
  from assms(1,2) have "\<forall>history.
       requests_get x history (request_url (PInt y) (PInt dv) (PInt 1)) = Inr (Inr (resp 1))"
    by simp
  from served_info[OF this assms(3), of ?st]
  obtain st1 where g: "games_info x (PInt y) (PInt dv) ?st = (st1, Inr ?i)"
    by (cases "games_info x (PInt y) (PInt dv) ?st") simp
  have "set [1..tp] \<subseteq> {1..tp}" by simp
  from competitors_page_loop_served[OF assms(2) this, of cid tc ev df st1] g
  show ?thesis
    by (simp add: competitors_division_def info_total_pages_def exn_bind_def py_range2_def)
qed

lemma competitor_rows_of_page_length:
  assumes "\<forall>idx<n. \<exists>t. competitor_row response idx = Inr t"
  shows "length (competitor_rows_of_page response n) = n"
proof -
  have t: "takeWhile (\<lambda>idx. \<not> isl (competitor_row response idx)) [0..<n] = [0..<n]"
    using assms by (intro takeWhile_eq_all_conv[THEN iffD2]) auto
  have "\<forall>idx\<in>set [0..<n]. length (rows (projr (competitor_row response idx))) = 1"
    using assms competitor_row_one_row by fastforce
  then have "sum_list (map (\<lambda>idx. length (rows (projr (competitor_row response idx)))) [0..<n])
      = sum_list (map (\<lambda>idx. 1) [0..<n])"
    by (intro arg_cong[where f = sum_list] map_cong) simp_all
  then show ?thesis
    by (simp add: competitor_rows_of_page_def t length_concat o_def sum_list_triv)
qed

lemma sample_rows_wf:
  "idx < n \<Longrightarrow> \<exists>t. competitor_row (sample_page a b (sample_rows n)) idx = Inr t"
  by (simp add: competitor_row_def leaderboard_row_def sample_page_def sample_rows_def
      sample_competitor_def exn_bind_def)

lemma competitors_collect_both:
  assumes "d \<noteq> 1" and "d \<noteq> 2"
    and "\<forall>dv\<in>{1, 2}. 1 \<le> tp dv
           \<and> games_info_fields (resp dv 1) = Inr (cid dv, PInt (tp dv), PInt (tc dv), ev dv)"
    and "\<forall>dv\<in>{1, 2}. \<forall>page\<in>{1..tp dv}. \<forall>history.
           requests_get x history (request_url (PInt year) (PInt dv) (PInt page))
             = Inr (Inr (resp dv page))"
  shows "rows (snd (competitors_collect x (PInt year) (PInt d) st))
     = concat (map (\<lambda>page. competitor_rows_of_page (resp 1 page)
                      (if page < tp 1 then 50 else nat (tc 1 mod 50))) [1..tp 1])
       @ concat (map (\<lambda>page. competitor_rows_of_page (resp 2 page)
                      (if page < tp 2 then 50 else nat (tc 2 mod 50))) [1..tp 2])"
proof -
  let ?st = "logging INFO ''Fetching competitor info for year {year} and division {division}'' st"
  have dv: "division_value_competitors (PInt d) = [PInt 1, PInt 2]"
    using assms(1,2) by (simp add: division_value_competitors_def)
  obtain st1 df1 where 1: "competitors_division x (PInt year) (PInt 1) DataFrame_empty ?st
      = (st1, df1)"
    by (cases "competitors_division x (PInt year) (PInt 1) DataFrame_empty ?st")
  obtain st2 df2 where 2: "competitors_division x (PInt year) (PInt 2) df1 st1 = (st2, df2)"
    by (cases "competitors_division x (PInt year) (PInt 2) df1 st1")
  have a1: "1 \<le> tp 1" "games_info_fields (resp 1 1) = Inr (cid 1, PInt (tp 1), PInt (tc 1), ev 1)"
    and a2: "1 \<le> tp 2" "games_info_fields (resp 2 1) = Inr (cid 2, PInt (tp 2), PInt (tc 2), ev 2)"
    using assms(3) by simp_all
  have s1: "\<forall>page\<in>{1..tp 1}. \<forall>history.
           requests_get x history (request_url (PInt year) (PInt 1) (PInt page))
             = Inr (Inr (resp 1 page))"
    and s2: "\<forall>page\<in>{1..tp 2}. \<forall>history.
           requests_get x history (request_url (PInt year) (PInt 2) (PInt page))
             = Inr (Inr (resp 2 page))"
    using assms(4) by simp_all
  from competitors_division_served[OF a1(1) s1 a1(2), of DataFrame_empty ?st] 1
  have r1: "rows df1 = concat (map (\<lambda>page. competitor_rows_of_page (resp 1 page)
                      (if page < tp 1 then 50 else nat (tc 1 mod 50))) [1..tp 1])"
    by (simp add: DataFrame_empty_def)
  from competitors_division_served[OF a2(1) s2 a2(2), of df1 st1] 2
  have r2: "rows df2 = rows df1 @ concat (map (\<lambda>page. competitor_rows_of_page (resp 2 page)
                      (if page < tp 2 then 50 else nat (tc 2 mod 50))) [1..tp 2])"
    by simp
  show ?thesis
    by (simp add: competitors_collect_def dv 1 2 r2 r1)
qed

lemma scores_idx_loop_rows:
  "rows (snd (scores_idx_loop x year d response idxs df st))
     = rows df @ concat (map (\<lambda>idx. case score_rows x year d response idx of
                                       Inl e \<Rightarrow> [] | Inr t \<Rightarrow> rows t) idxs)"
proof (induction idxs arbitrary: df st)
  case Nil
  show ?case by simp
next
  case (Cons idx idxs)
  show ?case
  proof (cases "score_rows x year d response idx")
    case (Inl e)
    with Cons.IH show ?thesis by simp
  next
    case (Inr t)
    with Cons.IH[of "pd_concat df t" st] show ?thesis
      by (simp add: rows_pd_concat)
  qed
qed

lemma scores_page_loop_served:
  assumes "\<forall>page\<in>{1..tp}. \<forall>history.
             requests_get x history (request_url (PInt y) (PInt dv) (PInt page))
               = Inr (Inr (resp page))"
    and "set ps \<subseteq> {1..tp}"
  shows "snd (snd (scores_page_loop x (PInt y) (PInt dv) (PInt tp) (PInt tc) ps df st)) = None
    \<and> rows (fst (snd (scores_page_loop x (PInt y) (PInt dv) (PInt tp) (PInt tc) ps df st)))
       = rows df @ concat (map (\<lambda>page. score_rows_of_page x (PInt y) (PInt dv) (resp page)
                                 (if page = tp then nat (tc - (tp - 1) * 50) else 50)) ps)"
  using assms(2)
proof (induction ps arbitrary: df st)
  case Nil
  show ?case by simp
next
  case (Cons p ps)
  let ?st = "logging INFO ''Fetching data for page {page}.'' st"
  let ?n = "if p = tp then nat (tc - (tp - 1) * 50) else 50"
  from Cons.prems assms(1) have s: "\<forall>history.
       requests_get x history (request_url (PInt y) (PInt dv) (PInt p)) = Inr (Inr (resp p))"
    by simp
  obtain st1 where g: "games_json_dump x (PInt y) (PInt dv) (PInt p) ?st = (st1, Inr (resp p))"
    using served_fetch[OF s, of ?st]
    by (cases "games_json_dump x (PInt y) (PInt dv) (PInt p) ?st") simp
  have n: "exn_bind (scores_num_results (PInt tp) (PInt tc) p) py_range = Inr [0..<?n]"
    by (auto simp: scores_num_results_def exn_bind_def py_range_def)
  obtain st2 df2 where l: "scores_idx_loop x (PInt y) (PInt dv) (resp p) [0..<?n] df st1
      = (st2, df2)"
    by (cases "scores_idx_loop x (PInt y) (PInt dv) (resp p) [0..<?n] df st1")
  from scores_idx_loop_rows[of x "PInt y" "PInt dv" "resp p" "[0..<?n]" df st1] l
  have r: "rows df2 = rows df @ score_rows_of_page x (PInt y) (PInt dv) (resp p) ?n"
    by (simp add: score_rows_of_page_def)
  have e: "scores_page_loop x (PInt y) (PInt dv) (PInt tp) (PInt tc) (p # ps) df st
      = scores_page_loop x (PInt y) (PInt dv) (PInt tp) (PInt tc) ps df2 st2"
    by (simp add: g n l)
  from Cons.prems have "set ps \<subseteq> {1..tp}" by simp
  from Cons.IH[OF this, of df2 st2] show ?case
    unfolding e by (simp add: r)
qed

lemma scores_div_loop_served:
  assumes "1 \<le> tp"
    and "\<forall>page\<in>{1..tp}. \<forall>history.
             requests_get x history (request_url (PInt y) (PInt dv) (PInt page))
               = Inr (Inr (resp page))"
    and "games_info_fields (resp 1) = Inr (cid, PInt tp, PInt tc, ev)"
  shows "\<exists>st' df'. scores_div_loop x (PInt y) (PInt dv # ds) df st
                      = scores_div_loop x (PInt y) ds df' st'
     \<and> rows df' = rows df @ concat (map (\<lambda>page. score_rows_of_page x (PInt y) (PInt dv)
                                 (resp page) (if page = tp then nat (tc - (tp - 1) * 50) else 50))
                                       [1..tp])"
proof -
  let ?st = "logging INFO ''Processing division {current_division} for year {year}.'' st"
  let ?i = "(cid, PInt tp, PInt tc, ev)"
  from assms(1,2) have "\<forall>history.
       requests_get x history (request_url (PInt y) (PInt dv) (PInt 1)) = Inr (Inr (resp 1))"
    by simp
  from served_info[OF this assms(3), of ?st]
  obtain st1 where g: "games_info x (PInt y) (PInt dv) ?st = (st1, Inr ?i)"
    by (cases "games_info x (PInt y) (PInt dv) ?st") simp
  let ?st2 = "logging INFO ''Total pages: {total_pages}, Total results: {total_results}.'' st1"
  obtain st3 df3 r3 where p: "scores_page_loop x (PInt y) (PInt dv) (PInt tp) (PInt tc)
        [1..tp] df ?st2 = (st3, df3, r3)"
    by (cases "scores_page_loop x (PInt y) (PInt dv) (PInt tp) (PInt tc) [1..tp] df ?st2"
        rule: prod_cases3)
  have "set [1..tp] \<subseteq> {1..tp}" by simp
  from scores_page_loop_served[OF assms(2) this, of tc df ?st2] p
  have r: "r3 = None" "rows df3 = rows df @ concat (map (\<lambda>page. score_rows_of_page x (PInt y)
              (PInt dv) (resp page) (if page = tp then nat (tc - (tp - 1) * 50) else 50)) [1..tp])"
    by simp_all
  have "scores_div_loop x (PInt y) (PInt dv # ds) df st = scores_div_loop x (PInt y) ds df3 st3"
    using g p r(1)
    by (simp add: info_total_pages_def info_total_competitors_def exn_bind_def py_range2_def)
  with r(2) show ?thesis by blast
qed

lemma score_rows_division:
  assumes "score_rows x year (PInt k) response idx = Inr t"
  shows "\<forall>r\<in>set (rows t). cell r (PStr ''division'') = PInt k"
proof -
  from assms obtain t0 where "set_column (PStr ''division'') (PInt k) t0 = Inr t"
    unfolding score_rows_def by (auto dest!: exn_bind_Inr)
  then show ?thesis
    by (auto simp: broadcast_column_def cell_update)
qed

lemma score_rows_of_page_division:
  "\<forall>r\<in>set (score_rows_of_page x year (PInt k) response n). cell r (PStr ''division'') = PInt k"
proof
  fix r
  assume "r \<in> set (score_rows_of_page x year (PInt k) response n)"
  then obtain idx where
    r: "r \<in> set (case score_rows x year (PInt k) response idx of Inl e \<Rightarrow> [] | Inr t \<Rightarrow> rows t)"
    by (auto simp: score_rows_of_page_def)
  show "cell r (PStr ''division'') = PInt k"
  proof (cases "score_rows x year (PInt k) response idx")
    case (Inl e)
    with r show ?thesis by simp
  next
    case (Inr t)
    with r score_rows_division[OF Inr] show ?thesis by simp
  qed
qed

lemma scores_collect_both:
  assumes "d \<noteq> 1" and "d \<noteq> 2"
    and "\<forall>dv\<in>{1, 2}. 1 \<le> tp dv
           \<and> games_info_fields (resp dv 1) = Inr (cid dv, PInt (tp dv), PInt (tc dv), ev dv)"
    and "\<forall>dv\<in>{1, 2}. \<forall>page\<in>{1..tp dv}. \<forall>history.
           requests_get x history (request_url (PInt year) (PInt dv) (PInt page))
             = Inr (Inr (resp dv page))"
  shows "\<exists>st' T. scores_div_loop x (PInt year) (division_value_scores (PInt d)) DataFrame_empty st
                    = (st', T, None)
     \<and> rows T
        = concat (map (\<lambda>page. score_rows_of_page x (PInt year) (PInt 1) (resp 1 page)
                        (if page = tp 1 then nat (tc 1 - (tp 1 - 1) * 50) else 50)) [1..tp 1])
          @ concat (map (\<lambda>page. score_rows_of_page x (PInt year) (PInt 2) (resp 2 page)
                        (if page = tp 2 then nat (tc 2 - (tp 2 - 1) * 50) else 50)) [1..tp 2])
     \<and> snd (games_info_scores x (PInt year) (PInt d) st)
        = (case scores_transform x T of Inl e \<Rightarrow> Inr DataFrame_empty | Inr t \<Rightarrow> Inr t)"
proof -
  have dv: "division_value_scores (PInt d) = [PInt 1, PInt 2]"
    using assms(1,2) by (simp add: division_value_scores_def)
  have a1: "1 \<le> tp 1" "games_info_fields (resp 1 1) = Inr (cid 1, PInt (tp 1), PInt (tc 1), ev 1)"
    and a2: "1 \<le> tp 2" "games_info_fields (resp 2 1) = Inr (cid 2, PInt (tp 2), PInt (tc 2), ev 2)"
    using assms(3) by simp_all
  have s1: "\<forall>page\<in>{1..tp 1}. \<forall>history.
           requests_get x history (request_url (PInt year) (PInt 1) (PInt page))
             = Inr (Inr (resp 1 page))"
    and s2: "\<forall>page\<in>{1..tp 2}. \<forall>history.
           requests_get x history (request_url (PInt year) (PInt 2) (PInt page))
             = Inr (Inr (resp 2 page))"
    using assms(4) by simp_all
  from scores_div_loop_served[OF a1(1) s1 a1(2), of "[PInt 2]" DataFrame_empty st]
  obtain st1 df1 where
    e1: "scores_div_loop x (PInt year) [PInt 1, PInt 2] DataFrame_empty st
          = scores_div_loop x (PInt year) [PInt 2] df1 st1"
    and r1: "rows df1 = concat (map (\<lambda>page. score_rows_of_page x (PInt year) (PInt 1) (resp 1 page)
                        (if page = tp 1 then nat (tc 1 - (tp 1 - 1) * 50) else 50)) [1..tp 1])"
    by (auto simp: DataFrame_empty_def)
  from scores_div_loop_served[OF a2(1) s2 a2(2), of "[]" df1 st1]
  obtain st2 df2 where
    e2: "scores_div_loop x (PInt year) [PInt 2] df1 st1 = scores_div_loop x (PInt year) [] df2 st2"
    and r2: "rows df2 = rows df1 @ concat (map (\<lambda>page. score_rows_of_page x (PInt year) (PInt 2)
               (resp 2 page) (if page = tp 2 then nat (tc 2 - (tp 2 - 1) * 50) else 50)) [1..tp 2])"
    by blast
  have e: "scores_div_loop x (PInt year) (division_value_scores (PInt d)) DataFrame_empty st
      = (st2, df2, None)"
    unfolding dv e1 e2 by simp
  have "snd (games_info_scores x (PInt year) (PInt d) st)
        = (case scores_transform x df2 of Inl e \<Rightarrow> Inr DataFrame_empty | Inr t \<Rightarrow> Inr t)"
    by (simp add: games_info_scores_def scores_try_def e Let_def split: sum.splits)
  with e r1 r2 show ?thesis
    by (intro exI[of _ st2] exI[of _ df2]) simp
qed

lemma multiple_both:
  assumes "d \<noteq> 1" and "d \<noteq> 2"
    and "\<forall>dv\<in>{1, 2}. 1 \<le> tp dv
           \<and> games_info_fields (resp dv 1) = Inr (cid dv, PInt (tp dv), PInt (tc dv), ev dv)"
    and "\<forall>dv\<in>{1, 2}. \<forall>page\<in>{1..tp dv}. \<forall>history.
           requests_get x history (request_url (PInt year) (PInt dv) (PInt page))
             = Inr (Inr (resp dv page))"
  shows "snd (games_info_multiple x (PInt year) (PInt year) (PInt d) st)
     = convert_object_columns_to_numeric x
         \<lparr>columns = multiple_columns,
          rows = [zip multiple_columns
                    [cid 1, PInt (tp 1), PInt (tc 1), ev 1, PInt year, PInt 1],
                  zip multiple_columns
                    [cid 2, PInt (tp 2), PInt (tc 2), ev 2, PInt year, PInt 2]]\<rparr>"
proof -
  let ?st = "logging INFO
     ''Fetching multiple years games info from {year_from} to {year_too} for division {division}''
     st"
  let ?l = "logging INFO ''Processing year {year} and division {div}''"
  have dv: "division_value_multiple (PInt d) = [PInt 1, PInt 2]"
    using assms(1,2) by (simp add: division_value_multiple_def)
  have s1: "\<forall>history. requests_get x history (request_url (PInt year) (PInt 1) (PInt 1))
             = Inr (Inr (resp 1 1))"
    and s2: "\<forall>history. requests_get x history (request_url (PInt year) (PInt 2) (PInt 1))
             = Inr (Inr (resp 2 1))"
    using assms(3,4) by simp_all
  have f1: "games_info_fields (resp 1 1) = Inr (cid 1, PInt (tp 1), PInt (tc 1), ev 1)"
    and f2: "games_info_fields (resp 2 1) = Inr (cid 2, PInt (tp 2), PInt (tc 2), ev 2)"
    using assms(3) by simp_all
  obtain st1 where g1: "games_info x (PInt year) (PInt 1) (?l ?st)
       = (st1, Inr (cid 1, PInt (tp 1), PInt (tc 1), ev 1))"
    using served_info[OF s1 f1, of "?l ?st"]
    by (cases "games_info x (PInt year) (PInt 1) (?l ?st)") simp
  obtain st2 where g2: "games_info x (PInt year) (PInt 2) (?l st1)
       = (st2, Inr (cid 2, PInt (tp 2), PInt (tc 2), ev 2))"
    using served_info[OF s2 f2, of "?l st1"]
    by (cases "games_info x (PInt year) (PInt 2) (?l st1)") simp
  have y: "exn_bind (py_add_int (PInt year) 1) (py_range2 (PInt year)) = Inr [year]"
    by (simp add: exn_bind_def py_range2_def upto.simps)
  have m: "multiple_div_loop x year [PInt 1, PInt 2] (DataFrame_columns multiple_columns) ?st
     = (st2, \<lparr>columns = multiple_columns,
          rows = [zip multiple_columns
                    [cid 1, PInt (tp 1), PInt (tc 1), ev 1, PInt year, PInt 1],
                  zip multiple_columns
                    [cid 2, PInt (tp 2), PInt (tc 2), ev 2, PInt year, PInt 2]]\<rparr>, None)"
    by (simp add: g1 g2 DataFrame_columns_def DataFrame_row_def pd_concat_def)
  show ?thesis
    unfolding games_info_multiple_def Let_def dv y
    by (simp add: m del: multiple_div_loop.simps)
qed

lemma scores_transform_Inr:
  assumes "scores_transform x df = Inr df'"
  shows "\<exists>d1 d2 ws. rank_recode df = Inr d1 \<and> convert_object_columns_to_numeric x d1 = Inr d2
           \<and> length ws = length (rows d2)
           \<and> df' = assign_column (PStr ''scoreIsWeightInKg'') ws d2"
proof -
  from assms obtain d1 d2 where 1: "rank_recode df = Inr d1"
    and 2: "convert_object_columns_to_numeric x d1 = Inr d2"
    and 3: "update_column (PStr ''scoreIsWeightInKg'') (PStr ''scoreDisplay'')
              (apply_series (lb_to_kg x)) d2 = Inr df'"
    unfolding scores_transform_def by (blast dest: exn_bind_Inr)
  from update_column_Inr[OF 3] obtain ws where
    ws: "apply_series (lb_to_kg x) (map (\<lambda>r. cell r (PStr ''scoreDisplay'')) (rows d2)) = Inr ws"
    and d: "df' = assign_column (PStr ''scoreIsWeightInKg'') ws d2"
    by (elim exE conjE)
  from apply_series_Inr[OF ws] have "length ws = length (rows d2)" by simp
  with 1 2 d show ?thesis by blast
qed

lemma assign_column_length:
  "length ws = length (rows df) \<Longrightarrow> length (rows (assign_column c ws df)) = length (rows df)"
  by (simp add: assign_column_def)

lemma assign_column_cell:
  assumes "length ws = length (rows df)" and "i < length (rows df)" and "c' \<noteq> c"
  shows "cell (rows (assign_column c ws df) ! i) c' = cell (rows df ! i) c'"
  using assms by (simp add: assign_column_def cell_update)

lemma games_info_scores_transformed:
  assumes "scores_div_loop x year (division_value_scores division) DataFrame_empty st
             = (st', T, None)"
    and "scores_transform x T = Inr df'"
  shows "snd (games_info_scores x year division st) = Inr df'"
  using assms by (simp add: games_info_scores_def scores_try_def Let_def)

subsection \<open>The claims\<close>

text \<open>
  \<^bold>\<open>C1.\<close> For every year, every division and every behaviour of the page fetcher (and of
  the other functions \<open>games_info_scores\<close> calls), \<open>games_info_scores\<close> returns a table and
  never an exception. When the body of its \<^verbatim>\<open>try\<close> raises, the table is the empty one and
  the last thing it did was to log at critical severity; when the body returns a table,
  that table is the result and nothing more is logged.
\<close>

theorem games_info_scores_fails_soft:
  "\<exists>st' df. games_info_scores x year division st = (st', Inr df)
     \<and> (case scores_try x year (division_value_scores division) st of
          (st1, Inl e) \<Rightarrow>
            df = DataFrame_empty \<and> requests st' = requests st1
            \<and> logged st' = logged st1 @ [(CRITICAL, ''Error occurred in games_info_scores: {e}'')]
        | (st1, Inr t) \<Rightarrow> df = t \<and> st' = st1)"
  by (auto simp: games_info_scores_def logging_def split: prod.splits sum.splits)

theorem games_info_scores_fails_soft_witness:
  "snd (scores_try (sample_ext [Inr (PDict [])]) (PInt 2022) (division_value_scores (PInt 1)) state0)
     = Inl (KeyError (PStr ''pagination''))
   \<and> snd (games_info_scores (sample_ext [Inr (PDict [])]) (PInt 2022) (PInt 1) state0)
     = Inr DataFrame_empty
   \<and> last (logged (fst (games_info_scores (sample_ext [Inr (PDict [])]) (PInt 2022) (PInt 1) state0)))
     = (CRITICAL, ''Error occurred in games_info_scores: {e}'')"
proof -
  let ?x = "sample_ext [Inr (PDict [])]"
  have t: "snd (scores_try ?x (PInt 2022) (division_value_scores (PInt 1)) state0)
             = Inl (KeyError (PStr ''pagination''))"
    by code_simp
  from games_info_scores_fails_soft[of ?x "PInt 2022" "PInt 1" state0]
  obtain st' df where g: "games_info_scores ?x (PInt 2022) (PInt 1) state0 = (st', Inr df)"
    and c: "case scores_try ?x (PInt 2022) (division_value_scores (PInt 1)) state0 of
          (st1, Inl e) \<Rightarrow>
            df = DataFrame_empty \<and> requests st' = requests st1
            \<and> logged st' = logged st1 @ [(CRITICAL, ''Error occurred in games_info_scores: {e}'')]
        | (st1, Inr t) \<Rightarrow> df = t \<and> st' = st1"
    by (elim exE conjE)
  from c t have "df = DataFrame_empty"
    and "last (logged st') = (CRITICAL, ''Error occurred in games_info_scores: {e}'')"
    by (auto split: prod.splits sum.splits)
  with g t show ?thesis by simp
qed

text \<open>
  \<^bold>\<open>C2\<close>, as stated, fails: an exception escapes \<open>games_info_competitors\<close>. The
  division has one page and its fetch fails; the failure is caught and logged, the
  collected table is empty, and line 141, which no \<^verbatim>\<open>try\<close> guards, raises \<open>KeyError\<close>
  for the column \<open>weight\<close>.
\<close>

theorem competitors_exception_escapes:
  "snd (games_info_competitors
          (sample_ext [Inr (sample_page 1 1 []), Inl RequestException])
          (PInt 2018) (PInt 1) state0)
     = Inl (KeyError (PStr ''weight''))"
  by code_simp

text \<open>
  \<^bold>\<open>C2\<close>, amended. In the collection loops of \<open>games_info_competitors\<close> (lines 115 to
  137) a failure while fetching or processing a page is caught, logged and skipped, and
  no exception leaves the loops: the rows of every page that was fetched and processed
  without failure are in the collected table, whatever happened on the pages before and
  after it and in the other division, and a page whose fetch fails leaves the table as it
  was and logs an error. What \<open>games_info_competitors\<close> returns or raises is what the
  transformations of lines 141 to 150, which run outside every \<^verbatim>\<open>try\<close>, return or raise
  on the collected table.
\<close>

theorem competitors_page_isolation:
  assumes "division_value_competitors division = dbefore @ d # dafter"
    and "competitors_div_loop x year dbefore DataFrame_empty
           (logging INFO ''Fetching competitor info for year {year} and division {division}'' st)
         = (sta, dfa)"
    and "games_info x year d (logging INFO ''Processing division {div}'' sta) = (stb, Inr i)"
    and "exn_bind (py_add_int (info_total_pages i) 1) (py_range2 (PInt 1))
         = Inr (before @ page # after)"
    and "competitors_page_loop x year d i before dfa stb = (stc, dfc)"
    and "snd (games_json_dump x year d (PInt page)
                (logging INFO ''Fetching page {page} for division {div}'' stc)) = Inr response"
    and "competitors_on_page (info_total_pages i) (info_total_competitors i) page = Inr idxs"
    and "competitors_idx_loop response idxs DataFrame_empty = (t, None)"
  shows "sublist (rows t) (rows (snd (competitors_collect x year division st)))
    \<and> snd (games_info_competitors x year division st)
        = competitors_transform x (snd (competitors_collect x year division st))
    \<and> (snd (games_json_dump x year d (PInt q)
                (logging INFO ''Fetching page {page} for division {div}'' s)) = Inl e
        \<longrightarrow> snd (competitors_page x year d i q df s) = df
          \<and> last (logged (fst (competitors_page x year d i q df s)))
             = (ERROR, ''Error processing page {page} for division {div}: {e}''))"
proof (intro conjI impI)
  let ?st0 = "logging INFO ''Fetching competitor info for year {year} and division {division}'' st"
  obtain std dfd where pg: "competitors_page x year d i page dfc stc = (std, dfd)"
    by (cases "competitors_page x year d i page dfc stc")
  from competitors_page_ok[OF assms(6,7,8), of dfc] pg
  have r1: "rows dfd = rows dfc @ rows t" by simp
  have pl: "competitors_page_loop x year d i (before @ page # after) dfa stb
      = competitors_page_loop x year d i after dfd std"
    by (simp add: competitors_page_loop_append assms(5) pg)
  have dv: "competitors_division x year d dfa sta
      = competitors_page_loop x year d i after dfd std"
    by (simp add: competitors_division_def assms(3,4) pl)
  obtain ste dfe where e: "competitors_page_loop x year d i after dfd std = (ste, dfe)"
    by (cases "competitors_page_loop x year d i after dfd std")
  from competitors_page_loop_prefix[of dfd x year d i after std] e
  have r2: "prefix (rows dfd) (rows dfe)" by simp
  have c: "competitors_collect x year division st = competitors_div_loop x year dafter dfe ste"
    by (simp add: competitors_collect_def assms(1,2) competitors_div_loop_append dv e)
  from competitors_div_loop_prefix[of dfe x year dafter ste]
  have r3: "prefix (rows dfe) (rows (snd (competitors_collect x year division st)))"
    by (simp add: c)
  from r2 r3 have "prefix (rows dfc @ rows t) (rows (snd (competitors_collect x year division st)))"
    unfolding r1 by (rule prefix_order.trans)
  then obtain zs where "rows (snd (competitors_collect x year division st))
      = rows dfc @ rows t @ zs"
    by (auto simp: prefix_def)
  then show "sublist (rows t) (rows (snd (competitors_collect x year division st)))"
    unfolding sublist_def by blast
  show "snd (games_info_competitors x year division st)
        = competitors_transform x (snd (competitors_collect x year division st))"
    by (auto simp: games_info_competitors_def split: prod.splits sum.splits)
next
  assume "snd (games_json_dump x year d (PInt q)
                (logging INFO ''Fetching page {page} for division {div}'' s)) = Inl e"
  from competitors_page_failed[OF this, of i df]
  show "snd (competitors_page x year d i q df s) = df"
    and "last (logged (fst (competitors_page x year d i q df s)))
             = (ERROR, ''Error processing page {page} for division {div}: {e}'')"
    by simp_all
qed


theorem competitors_page_isolation_witness:
  "sublist
     [[(PStr ''competitorId'', PInt 11), (PStr ''weight'', PStr ''205 lb''),
       (PStr ''height'', PStr ''70 in''), (PStr ''age'', PStr ''30''),
       (PStr ''overallScore'', PStr ''100''), (PStr ''overallRank'', PStr ''5T'')]]
     (rows (snd (competitors_collect
        (sample_ext [Inr (sample_page 2 51 []), Inl RequestException,
                     Inr (sample_page 2 51 [sample_competitor 11 ''5T'' ''1''])])
        (PInt 2018) (PInt 1) state0)))
   \<and> snd (games_json_dump
        (sample_ext [Inr (sample_page 2 51 []), Inl RequestException,
                     Inr (sample_page 2 51 [sample_competitor 11 ''5T'' ''1''])])
        (PInt 2018) (PInt 1) (PInt 1)
        (logging INFO ''Fetching page {page} for division {div}''
           \<lparr>requests = [''u''], logged = []\<rparr>)) = Inl RequestException"
proof -
  let ?x = "sample_ext [Inr (sample_page 2 51 []), Inl RequestException,
                        Inr (sample_page 2 51 [sample_competitor 11 ''5T'' ''1''])]"
  let ?s0 = "logging INFO ''Fetching competitor info for year {year} and division {division}''
               state0"
  let ?i = "(PInt 7, PInt 2, PInt 51, PInt 2)"
  let ?gi = "games_info ?x (PInt 2018) (PInt 1) (logging INFO ''Processing division {div}'' ?s0)"
  let ?pl = "competitors_page_loop ?x (PInt 2018) (PInt 1) ?i [1] DataFrame_empty (fst ?gi)"
  let ?t = "\<lparr>columns = [PStr ''competitorId'', PStr ''weight'', PStr ''height'', PStr ''age'',
                       PStr ''overallScore'', PStr ''overallRank''],
             rows = [[(PStr ''competitorId'', PInt 11), (PStr ''weight'', PStr ''205 lb''),
                      (PStr ''height'', PStr ''70 in''), (PStr ''age'', PStr ''30''),
                      (PStr ''overallScore'', PStr ''100''),
                      (PStr ''overallRank'', PStr ''5T'')]]\<rparr>"
  have h1: "division_value_competitors (PInt 1) = [] @ PInt 1 # []"
    by (simp add: division_value_competitors_def)
  have h2: "competitors_div_loop ?x (PInt 2018) [] DataFrame_empty ?s0 = (?s0, DataFrame_empty)"
    by simp
  have "snd ?gi = Inr ?i"
    by code_simp
  then have h3: "?gi = (fst ?gi, Inr ?i)"
    by (simp add: prod_eq_iff)
  have h4: "exn_bind (py_add_int (info_total_pages ?i) 1) (py_range2 (PInt 1))
              = Inr ([1] @ 2 # [])"
    by code_simp
  have h5: "?pl = (fst ?pl, snd ?pl)"
    by simp
  have h6: "snd (games_json_dump ?x (PInt 2018) (PInt 1) (PInt 2)
                   (logging INFO ''Fetching page {page} for division {div}'' (fst ?pl)))
              = Inr (sample_page 2 51 [sample_competitor 11 ''5T'' ''1''])"
    by code_simp
  have h7: "competitors_on_page (info_total_pages ?i) (info_total_competitors ?i) 2 = Inr [0]"
    by code_simp
  have h8: "competitors_idx_loop (sample_page 2 51 [sample_competitor 11 ''5T'' ''1'']) [0]
              DataFrame_empty = (?t, None)"
    by code_simp
  have f: "snd (games_json_dump ?x (PInt 2018) (PInt 1) (PInt 1)
        (logging INFO ''Fetching page {page} for division {div}''
           \<lparr>requests = [''u''], logged = []\<rparr>)) = Inl RequestException"
    by code_simp
  from competitors_page_isolation[OF h1 h2 h3 h4 h5 h6 h7 h8] f
  show ?thesis
    by simp
qed

text \<open>
  \<^bold>\<open>C3.\<close> For a division with \<open>totalPages\<close> pages and \<open>totalCompetitors\<close> competitors
  (integers, at least one page) whose pages the server answers, the competitor aggregator
  iterates on page \<open>p\<close> over the row indices \<open>0, ..., n p - 1\<close>, where \<open>n p\<close> is 50 when
  \<open>p < totalPages\<close> and \<open>totalCompetitors mod 50\<close> otherwise. When every row at these
  indices is processed without failure, the table collected by the page and division
  loops (lines 115 to 137) is, page after page from 1 to \<open>totalPages\<close>, the rows of each
  page, page \<open>p\<close> giving exactly \<open>n p\<close> of them. With 110 competitors on 3 pages the
  counts are 50, 50 and 10, and the table has 110 rows.
\<close>

theorem competitors_rows_per_page:
  fixes resp :: "int \<Rightarrow> pyval"
  assumes "division = 1 \<or> division = 2"
    and "1 \<le> total_pages"
    and "\<forall>page\<in>{1..total_pages}. \<forall>history.
           requests_get x history (request_url (PInt year) (PInt division) (PInt page))
             = Inr (Inr (resp page))"
    and "games_info_fields (resp 1)
           = Inr (cid, PInt total_pages, PInt total_competitors, events)"
    and "\<forall>page\<in>{1..total_pages}.
           \<forall>idx < (if page < total_pages then 50 else nat (total_competitors mod 50)).
             \<exists>t. competitor_row (resp page) idx = Inr t"
  shows "competitors_on_page (PInt total_pages) (PInt total_competitors) p
           = Inr [0..<(if p < total_pages then 50 else nat (total_competitors mod 50))]
    \<and> rows (snd (competitors_collect x (PInt year) (PInt division) st))
        = concat (map (\<lambda>page. competitor_rows_of_page (resp page)
                         (if page < total_pages then 50 else nat (total_competitors mod 50)))
                    [1..total_pages])
    \<and> map (\<lambda>page. length (competitor_rows_of_page (resp page)
                         (if page < total_pages then 50 else nat (total_competitors mod 50))))
          [1..total_pages]
        = map (\<lambda>page. if page < total_pages then 50 else nat (total_competitors mod 50))
            [1..total_pages]
    \<and> length (rows (snd (competitors_collect x (PInt year) (PInt division) st)))
        = sum_list (map (\<lambda>page. if page < total_pages then 50
                                  else nat (total_competitors mod 50)) [1..total_pages])"
proof -
  let ?n = "\<lambda>page. if page < total_pages then 50 else nat (total_competitors mod 50)"
  let ?st = "logging INFO ''Fetching competitor info for year {year} and division {division}'' st"
  have dv: "division_value_competitors (PInt division) = [PInt division]"
    using assms(1) by (auto simp: division_value_competitors_def)
  obtain st1 df1 where d: "competitors_division x (PInt year) (PInt division) DataFrame_empty ?st
      = (st1, df1)"
    by (cases "competitors_division x (PInt year) (PInt division) DataFrame_empty ?st")
  from competitors_division_served[OF assms(2,3,4), of DataFrame_empty ?st] d
  have r: "rows (snd (competitors_collect x (PInt year) (PInt division) st))
        = concat (map (\<lambda>page. competitor_rows_of_page (resp page) (?n page)) [1..total_pages])"
    by (simp add: competitors_collect_def dv DataFrame_empty_def)
  have l: "map (\<lambda>page. length (competitor_rows_of_page (resp page) (?n page))) [1..total_pages]
        = map ?n [1..total_pages]"
    using assms(5) by (intro map_cong refl competitor_rows_of_page_length) simp
  have "length (rows (snd (competitors_collect x (PInt year) (PInt division) st)))
        = sum_list (map (\<lambda>page. length (competitor_rows_of_page (resp page) (?n page)))
                      [1..total_pages])"
    unfolding r by (simp add: length_concat o_def)
  also have "\<dots> = sum_list (map ?n [1..total_pages])"
    using l by (rule arg_cong)
  finally have t: "length (rows (snd (competitors_collect x (PInt year) (PInt division) st)))
        = sum_list (map ?n [1..total_pages])" .
  show ?thesis
    by (intro conjI competitors_on_page_int r l t)
qed

theorem competitors_rows_per_page_witness:
  "length (rows (snd (competitors_collect
      (served_ext
         [(request_url (PInt 2022) (PInt 1) (PInt 1), sample_page 3 110 (sample_rows 50)),
          (request_url (PInt 2022) (PInt 1) (PInt 2), sample_page 3 110 (sample_rows 50)),
          (request_url (PInt 2022) (PInt 1) (PInt 3), sample_page 3 110 (sample_rows 10))])
      (PInt 2022) (PInt 1) state0))) = 110
   \<and> map (\<lambda>page. length (competitor_rows_of_page
                 (sample_page 3 110 (sample_rows (if page < 3 then 50 else 10)))
                 (if page < 3 then 50 else nat (110 mod 50))))
       [1, 2, 3 :: int] = [50, 50, 10]"
proof -
  let ?x = "served_ext
         [(request_url (PInt 2022) (PInt 1) (PInt 1), sample_page 3 110 (sample_rows 50)),
          (request_url (PInt 2022) (PInt 1) (PInt 2), sample_page 3 110 (sample_rows 50)),
          (request_url (PInt 2022) (PInt 1) (PInt 3), sample_page 3 110 (sample_rows 10))]"
  let ?resp = "\<lambda>page::int. sample_page 3 110 (sample_rows (if page < 3 then 50 else 10))"
  have u: "request_url (PInt 2022) (PInt 1) (PInt 1) \<noteq> request_url (PInt 2022) (PInt 1) (PInt 2)"
    "request_url (PInt 2022) (PInt 1) (PInt 1) \<noteq> request_url (PInt 2022) (PInt 1) (PInt 3)"
    "request_url (PInt 2022) (PInt 1) (PInt 2) \<noteq> request_url (PInt 2022) (PInt 1) (PInt 3)"
    by code_simp+
  have p: "page = 1 \<or> page = 2 \<or> page = 3" if "page \<in> {1..3}" for page :: int
    using that by auto
  have h1: "(1::int) = 1 \<or> (1::int) = 2" by simp
  have h2: "(1::int) \<le> 3" by simp
  have h3: "\<forall>page\<in>{1..3}. \<forall>history.
           requests_get ?x history (request_url (PInt 2022) (PInt 1) (PInt page))
             = Inr (Inr (?resp page))"
    using u by (auto dest!: p simp: served_ext_def url_server_def)
  have h4: "games_info_fields (?resp 1) = Inr (PInt 7, PInt 3, PInt 110, PInt 2)"
    by (simp add: games_info_fields_def sample_page_def exn_bind_def)
  have h5: "\<forall>page\<in>{1..3}. \<forall>idx < (if page < 3 then 50 else nat (110 mod 50)).
             \<exists>t. competitor_row (?resp page) idx = Inr t"
    by (auto intro: sample_rows_wf)
  have l: "[1..3] = [1, 2, 3::int]"
    by (simp add: upto.simps)
  from competitors_rows_per_page[OF h1 h2 h3 h4 h5, of 1 state0]
  show ?thesis
    by (simp add: l)
qed

text \<open>
  \<^bold>\<open>C4.\<close> The two aggregators do not count the rows of the last page alike. With
  \<open>totalPages = 2\<close> and \<open>totalCompetitors = 100\<close>, on page 2, \<open>games_info_competitors\<close>
  iterates over \<open>100 mod 50 = 0\<close> rows and \<open>games_info_scores\<close> over
  \<open>100 - (2 - 1) * 50 = 50\<close> rows.
\<close>

theorem last_page_counts_differ:
  "competitors_on_page (PInt 2) (PInt 100) 2 = Inr []
   \<and> exn_bind (scores_num_results (PInt 2) (PInt 100) 2) py_range = Inr [0..<50]"
  by (simp add: competitors_on_page_def scores_num_results_def exn_bind_def py_range_def)

text \<open>
  \<^bold>\<open>C5.\<close> In \<open>games_info_multiple\<close> the \<^verbatim>\<open>try\<close> holds the whole division loop of a
  year. With \<open>division = 0\<close> and a fetch that fails for division 1 of 2018 only, the
  function returns a table with no row: the one request issued is the one for division 1,
  and division 2 of 2018 is never asked for, although the same client, asked next for
  division 2 alone, yields its row.
\<close>

theorem games_info_multiple_skips_rest_of_year:
  "snd (games_info_multiple (sample_ext [Inl RequestException, Inr (sample_page 1 1 [])])
          (PInt 2018) (PInt 2018) (PInt 0) state0)
     = Inr \<lparr>columns = multiple_columns, rows = []\<rparr>
   \<and> requests (fst (games_info_multiple (sample_ext [Inl RequestException, Inr (sample_page 1 1 [])])
          (PInt 2018) (PInt 2018) (PInt 0) state0))
     = [''https://c3po.crossfit.com/api/leaderboards/v2/competitions/games/2018/leaderboards?division=1&sort=0&page=1'']
   \<and> map (\<lambda>r. (cell r (PStr ''year''), cell r (PStr ''division'')))
       (rows (projr (snd (games_info_multiple
          (sample_ext [Inl RequestException, Inr (sample_page 1 1 [])])
          (PInt 2018) (PInt 2018) (PInt 2)
          \<lparr>requests = [''https://c3po.crossfit.com/api/leaderboards/v2/competitions/games/2018/leaderboards?division=1&sort=0&page=1''],
           logged = []\<rparr>))))
     = [(PInt 2018, PInt 2)]"
  by code_simp

text \<open>
  \<^bold>\<open>C6.\<close> The three places that expand \<open>division\<close> (line 80 in \<open>games_info_multiple\<close>,
  line 113 in \<open>games_info_competitors\<close>, lines 196 to 201 in \<open>games_info_scores\<close>) agree:
  the integer 1 gives \<open>[1]\<close>, 2 gives \<open>[2]\<close>, every other integer gives \<open>[1, 2]\<close>; the
  two drivers pass \<open>division\<close> on unchanged. The list is walked in this order. When the
  server answers the pages of both divisions of a year and \<open>division\<close> is neither 1 nor 2,
  the metadata table of the year is the row of division 1 followed by the row of
  division 2; the competitor table collected is the rows of the pages of division 1, in
  page order, followed by those of the pages of division 2; and the score table collected
  is the score rows of the pages of division 1 followed by those of division 2, every
  score row of a page carrying the division it was fetched for; \<open>games_info_scores\<close>
  returns this table post-processed.
\<close>

theorem division_expansion:
  fixes resp :: "int \<Rightarrow> int \<Rightarrow> pyval" and tp tc :: "int \<Rightarrow> int" and cid ev :: "int \<Rightarrow> pyval"
  assumes "d \<noteq> 1" and "d \<noteq> 2"
    and "\<forall>dv\<in>{1, 2}. 1 \<le> tp dv
           \<and> games_info_fields (resp dv 1) = Inr (cid dv, PInt (tp dv), PInt (tc dv), ev dv)"
    and "\<forall>dv\<in>{1, 2}. \<forall>page\<in>{1..tp dv}. \<forall>history.
           requests_get x history (request_url (PInt year) (PInt dv) (PInt page))
             = Inr (Inr (resp dv page))"
  shows "division_value_multiple (PInt k)
       = (if k = 1 then [PInt 1] else if k = 2 then [PInt 2] else [PInt 1, PInt 2])
    \<and> division_value_competitors (PInt k)
       = (if k = 1 then [PInt 1] else if k = 2 then [PInt 2] else [PInt 1, PInt 2])
    \<and> division_value_scores (PInt k)
       = (if k = 1 then [PInt 1] else if k = 2 then [PInt 2] else [PInt 1, PInt 2])
    \<and> snd (games_info_multiple x (PInt year) (PInt year) (PInt d) st)
       = convert_object_columns_to_numeric x
           \<lparr>columns = multiple_columns,
            rows = [zip multiple_columns
                      [cid 1, PInt (tp 1), PInt (tc 1), ev 1, PInt year, PInt 1],
                    zip multiple_columns
                      [cid 2, PInt (tp 2), PInt (tc 2), ev 2, PInt year, PInt 2]]\<rparr>
    \<and> rows (snd (competitors_collect x (PInt year) (PInt d) st))
       = concat (map (\<lambda>page. competitor_rows_of_page (resp 1 page)
                        (if page < tp 1 then 50 else nat (tc 1 mod 50))) [1..tp 1])
         @ concat (map (\<lambda>page. competitor_rows_of_page (resp 2 page)
                        (if page < tp 2 then 50 else nat (tc 2 mod 50))) [1..tp 2])
    \<and> (\<exists>st' T. scores_div_loop x (PInt year) (division_value_scores (PInt d)) DataFrame_empty st
                    = (st', T, None)
         \<and> rows T
            = concat (map (\<lambda>page. score_rows_of_page x (PInt year) (PInt 1) (resp 1 page)
                        (if page = tp 1 then nat (tc 1 - (tp 1 - 1) * 50) else 50)) [1..tp 1])
              @ concat (map (\<lambda>page. score_rows_of_page x (PInt year) (PInt 2) (resp 2 page)
                        (if page = tp 2 then nat (tc 2 - (tp 2 - 1) * 50) else 50)) [1..tp 2])
         \<and> snd (games_info_scores x (PInt year) (PInt d) st)
            = (case scores_transform x T of Inl e \<Rightarrow> Inr DataFrame_empty | Inr t \<Rightarrow> Inr t))
    \<and> (\<forall>dv\<in>{1, 2}. \<forall>page n.
          \<forall>r\<in>set (score_rows_of_page x (PInt year) (PInt dv) (resp dv page) n).
            cell r (PStr ''division'') = PInt dv)"
proof (intro conjI)
  show "snd (games_info_multiple x (PInt year) (PInt year) (PInt d) st)
       = convert_object_columns_to_numeric x
           \<lparr>columns = multiple_columns,
            rows = [zip multiple_columns
                      [cid 1, PInt (tp 1), PInt (tc 1), ev 1, PInt year, PInt 1],
                    zip multiple_columns
                      [cid 2, PInt (tp 2), PInt (tc 2), ev 2, PInt year, PInt 2]]\<rparr>"
    by (rule multiple_both[OF assms])
  show "rows (snd (competitors_collect x (PInt year) (PInt d) st))
       = concat (map (\<lambda>page. competitor_rows_of_page (resp 1 page)
                        (if page < tp 1 then 50 else nat (tc 1 mod 50))) [1..tp 1])
         @ concat (map (\<lambda>page. competitor_rows_of_page (resp 2 page)
                        (if page < tp 2 then 50 else nat (tc 2 mod 50))) [1..tp 2])"
    by (rule competitors_collect_both[OF assms])
  show "\<exists>st' T. scores_div_loop x (PInt year) (division_value_scores (PInt d)) DataFrame_empty st
                    = (st', T, None)
         \<and> rows T
            = concat (map (\<lambda>page. score_rows_of_page x (PInt year) (PInt 1) (resp 1 page)
                        (if page = tp 1 then nat (tc 1 - (tp 1 - 1) * 50) else 50)) [1..tp 1])
              @ concat (map (\<lambda>page. score_rows_of_page x (PInt year) (PInt 2) (resp 2 page)
                        (if page = tp 2 then nat (tc 2 - (tp 2 - 1) * 50) else 50)) [1..tp 2])
         \<and> snd (games_info_scores x (PInt year) (PInt d) st)
            = (case scores_transform x T of Inl e \<Rightarrow> Inr DataFrame_empty | Inr t \<Rightarrow> Inr t)"
    by (rule scores_collect_both[OF assms])
  show "\<forall>dv\<in>{1, 2}. \<forall>page n.
          \<forall>r\<in>set (score_rows_of_page x (PInt year) (PInt dv) (resp dv page) n).
            cell r (PStr ''division'') = PInt dv"
    using score_rows_of_page_division by blast
qed (simp_all add: division_value_multiple_def division_value_competitors_def
      division_value_scores_def)

theorem division_expansion_instance:
  "map (\<lambda>r. cell r (PStr ''competitorId''))
     (rows (snd (competitors_collect
        (served_ext
           [(request_url (PInt 2022) (PInt 1) (PInt 1),
             sample_page 1 1 [sample_competitor 11 ''1'' ''CUT'']),
            (request_url (PInt 2022) (PInt 2) (PInt 1),
             sample_page 1 1 [sample_competitor 21 ''1'' ''5''])])
        (PInt 2022) (PInt 0) state0)))
     = [PInt 11, PInt 21]
   \<and> (\<exists>st' T. scores_div_loop
        (served_ext
           [(request_url (PInt 2022) (PInt 1) (PInt 1),
             sample_page 1 1 [sample_competitor 11 ''1'' ''CUT'']),
            (request_url (PInt 2022) (PInt 2) (PInt 1),
             sample_page 1 1 [sample_competitor 21 ''1'' ''5''])])
        (PInt 2022) [PInt 1, PInt 2] DataFrame_empty state0 = (st', T, None)
      \<and> map (\<lambda>r. (cell r (PStr ''division''), cell r (PStr ''competitorId''))) (rows T)
          = [(PInt 1, PInt 11), (PInt 2, PInt 21)])
   \<and> map (\<lambda>r. (cell r (PStr ''year''), cell r (PStr ''division'')))
       (rows (projr (snd (games_info_multiple
        (served_ext
           [(request_url (PInt 2022) (PInt 1) (PInt 1),
             sample_page 1 1 [sample_competitor 11 ''1'' ''CUT'']),
            (request_url (PInt 2022) (PInt 2) (PInt 1),
             sample_page 1 1 [sample_competitor 21 ''1'' ''5''])])
        (PInt 2022) (PInt 2022) (PInt 0) state0))))
     = [(PInt 2022, PInt 1), (PInt 2022, PInt 2)]
   \<and> division_value_scores (PInt 0) = [PInt 1, PInt 2]
   \<and> division_value_competitors (PInt 1) = [PInt 1]
   \<and> division_value_multiple (PInt 2) = [PInt 2]"
proof -
  let ?p1 = "sample_page 1 1 [sample_competitor 11 ''1'' ''CUT'']"
  let ?p2 = "sample_page 1 1 [sample_competitor 21 ''1'' ''5'']"
  let ?x = "served_ext [(request_url (PInt 2022) (PInt 1) (PInt 1), ?p1),
                        (request_url (PInt 2022) (PInt 2) (PInt 1), ?p2)]"
  let ?resp = "\<lambda>(dv::int) (page::int). if dv = 1 then ?p1 else ?p2"
  have u: "request_url (PInt 2022) (PInt 1) (PInt 1) \<noteq> request_url (PInt 2022) (PInt 2) (PInt 1)"
    by code_simp
  have h1: "(0::int) \<noteq> 1" and h2: "(0::int) \<noteq> 2" by simp_all
  have h3: "\<forall>dv\<in>{1, 2}. 1 \<le> (\<lambda>dv::int. 1::int) dv
           \<and> games_info_fields (?resp dv 1)
               = Inr ((\<lambda>dv. PInt 7) dv, PInt ((\<lambda>dv. 1) dv), PInt ((\<lambda>dv. 1) dv),
                      (\<lambda>dv. PInt 2) dv)"
    by (simp add: games_info_fields_def sample_page_def exn_bind_def)
  have h4: "\<forall>dv\<in>{1, 2}. \<forall>page\<in>{1..(\<lambda>dv::int. 1::int) dv}. \<forall>history.
           requests_get ?x history (request_url (PInt 2022) (PInt dv) (PInt page))
             = Inr (Inr (?resp dv page))"
    using u by (simp add: served_ext_def url_server_def)
  have l: "[1..1] = [1::int]" by (simp add: upto.simps)
  have c1: "competitor_rows_of_page ?p1 (Suc 0)
      = [[(PStr ''competitorId'', PInt 11), (PStr ''weight'', PStr ''205 lb''),
          (PStr ''height'', PStr ''70 in''), (PStr ''age'', PStr ''30''),
          (PStr ''overallScore'', PStr ''100''), (PStr ''overallRank'', PStr ''1'')]]"
    and c2: "competitor_rows_of_page ?p2 (Suc 0)
      = [[(PStr ''competitorId'', PInt 21), (PStr ''weight'', PStr ''205 lb''),
          (PStr ''height'', PStr ''70 in''), (PStr ''age'', PStr ''30''),
          (PStr ''overallScore'', PStr ''100''), (PStr ''overallRank'', PStr ''1'')]]"
    by code_simp+
  have s1: "map (\<lambda>r. (cell r (PStr ''division''), cell r (PStr ''competitorId'')))
              (score_rows_of_page ?x (PInt 2022) (PInt 1) ?p1 (Suc 0)) = [(PInt 1, PInt 11)]"
    and s2: "map (\<lambda>r. (cell r (PStr ''division''), cell r (PStr ''competitorId'')))
              (score_rows_of_page ?x (PInt 2022) (PInt 2) ?p2 (Suc 0)) = [(PInt 2, PInt 21)]"
    by code_simp+
  note t = division_expansion[OF h1 h2 h3 h4, where st = state0]
  have c: "map (\<lambda>r. cell r (PStr ''competitorId''))
     (rows (snd (competitors_collect ?x (PInt 2022) (PInt 0) state0))) = [PInt 11, PInt 21]"
    unfolding t[THEN conjunct2, THEN conjunct2, THEN conjunct2, THEN conjunct2, THEN conjunct1]
    by (simp add: l c1 c2 cell_def)
  have m: "map (\<lambda>r. (cell r (PStr ''year''), cell r (PStr ''division'')))
       (rows (projr (snd (games_info_multiple ?x (PInt 2022) (PInt 2022) (PInt 0) state0))))
     = [(PInt 2022, PInt 1), (PInt 2022, PInt 2)]"
    unfolding t[THEN conjunct2, THEN conjunct2, THEN conjunct2, THEN conjunct1]
    by (simp add: served_ext_def multiple_columns_def cell_def)
  from t[THEN conjunct2, THEN conjunct2, THEN conjunct2, THEN conjunct2, THEN conjunct2,
         THEN conjunct1]
  obtain st' T where
    "scores_div_loop ?x (PInt 2022) (division_value_scores (PInt 0)) DataFrame_empty state0
       = (st', T, None)"
    and "rows T = concat (map (\<lambda>page. score_rows_of_page ?x (PInt 2022) (PInt 1) ?p1
                             (if page = 1 then nat (1 - (1 - 1) * 50) else 50)) [1..1])
                  @ concat (map (\<lambda>page. score_rows_of_page ?x (PInt 2022) (PInt 2) ?p2
                             (if page = 1 then nat (1 - (1 - 1) * 50) else 50)) [1..1])"
    by auto
  then have s: "\<exists>st' T. scores_div_loop ?x (PInt 2022) [PInt 1, PInt 2] DataFrame_empty state0
        = (st', T, None)
      \<and> map (\<lambda>r. (cell r (PStr ''division''), cell r (PStr ''competitorId''))) (rows T)
          = [(PInt 1, PInt 11), (PInt 2, PInt 21)]"
    by (intro exI[of _ st'] exI[of _ T]) (simp add: l s1 s2 division_value_scores_def)
  have e0: "division_value_scores (PInt 0) = [PInt 1, PInt 2]"
    using t[where k = 0, THEN conjunct2, THEN conjunct2, THEN conjunct1] by simp
  have e1: "division_value_competitors (PInt 1) = [PInt 1]"
    using t[where k = 1, THEN conjunct2, THEN conjunct1] by simp
  have e2: "division_value_multiple (PInt 2) = [PInt 2]"
    using t[where k = 2, THEN conjunct1] by simp
  show ?thesis
    by (intro conjI c s m e0 e1 e2)
qed

text \<open>
  \<^bold>\<open>C7\<close>, as stated, fails for a score record that carries a \<open>rankReason\<close> of its own.
  The leaderboard has one competitor with one score, of rank \<open>5\<close> and \<open>rankReason\<close>
  \<open>TIE\<close>; in the row \<open>games_info_scores\<close> returns, \<open>rankReason\<close> is \<open>TIE\<close>, not null.
\<close>

theorem numeric_rank_keeps_its_rankReason:
  "snd (games_info_scores
     (sample_ext
        [Inr (sample_page 1 1
           [sample_scored 11 [PDict [(''rank'', PStr ''5''), (''rankReason'', PStr ''TIE''),
                                    (''scoreDisplay'', PStr ''300 lb'')]]]),
         Inr (sample_page 1 1
           [sample_scored 11 [PDict [(''rank'', PStr ''5''), (''rankReason'', PStr ''TIE''),
                                    (''scoreDisplay'', PStr ''300 lb'')]]])])
     (PInt 2022) (PInt 1) state0)
   = Inr \<lparr>columns = [PStr ''rank'', PStr ''rankReason'', PStr ''scoreDisplay'',
                     PStr ''competitorId'', PStr ''year'', PStr ''division'',
                     PStr ''scoreIsWeightInKg''],
          rows = [[(PStr ''rank'', PStr ''5''), (PStr ''rankReason'', PStr ''TIE''),
                   (PStr ''scoreDisplay'', PStr ''300 lb''), (PStr ''competitorId'', PInt 11),
                   (PStr ''year'', PInt 2022), (PStr ''division'', PInt 1),
                   (PStr ''scoreIsWeightInKg'', PNaN)]]\<rparr>"
  by code_simp

text \<open>
  \<^bold>\<open>C7\<close>, amended. When the collection loops of \<open>games_info_scores\<close> end without an
  exception with the table \<open>T\<close> and the post-processing of lines 240 to 245 succeeds on
  it, the function returns the post-processed table. The rank statements (lines 240 to
  243) keep the rows and their order, and in each row: when the raw rank is one of \<open>CUT\<close>,
  \<open>WD\<close>, \<open>DNF\<close>, \<open>rankReason\<close> holds that sentinel and \<open>rank\<close> is the integer 0;
  otherwise \<open>rank\<close> is the raw rank and \<open>rankReason\<close> is the one the raw score record
  carried, null when it carried none. This table goes through
  \<open>convert_object_columns_to_numeric\<close> (line 244), and line 245 changes neither \<open>rank\<close>
  nor \<open>rankReason\<close> in any row of the converted table.
\<close>

theorem scores_rank_recode:
  assumes "scores_div_loop x year (division_value_scores division) DataFrame_empty st
             = (st', T, None)"
    and "scores_transform x T = Inr df'"
  shows "\<exists>d1 d2. rank_recode T = Inr d1 \<and> convert_object_columns_to_numeric x d1 = Inr d2
    \<and> snd (games_info_scores x year division st) = Inr df'
    \<and> length (rows d1) = length (rows T)
    \<and> (\<forall>i<length (rows T).
         if cell (rows T ! i) (PStr ''rank'') \<in> set rank_sentinels
         then cell (rows d1 ! i) (PStr ''rankReason'') = cell (rows T ! i) (PStr ''rank'')
              \<and> cell (rows d1 ! i) (PStr ''rank'') = PInt 0
         else cell (rows d1 ! i) (PStr ''rank'') = cell (rows T ! i) (PStr ''rank'')
              \<and> cell (rows d1 ! i) (PStr ''rankReason'')
                  = (case map_of (rows T ! i) (PStr ''rankReason'') of
                       None \<Rightarrow> PNaN | Some v \<Rightarrow> v))
    \<and> length (rows df') = length (rows d2)
    \<and> (\<forall>i<length (rows d2).
         cell (rows df' ! i) (PStr ''rank'') = cell (rows d2 ! i) (PStr ''rank'')
         \<and> cell (rows df' ! i) (PStr ''rankReason'') = cell (rows d2 ! i) (PStr ''rankReason''))"
proof -
  from scores_transform_Inr[OF assms(2)] obtain d1 d2 ws where
    1: "rank_recode T = Inr d1" and 2: "convert_object_columns_to_numeric x d1 = Inr d2"
    and l: "length ws = length (rows d2)"
    and d: "df' = assign_column (PStr ''scoreIsWeightInKg'') ws d2"
    by (elim exE conjE)
  have r: "rows d1 = map recode_row (rows T)"
    by (rule rank_recode_rows[OF 1])
  have a: "length (rows d1) = length (rows T)"
    by (simp add: r)
  have b: "\<forall>i<length (rows T).
         if cell (rows T ! i) (PStr ''rank'') \<in> set rank_sentinels
         then cell (rows d1 ! i) (PStr ''rankReason'') = cell (rows T ! i) (PStr ''rank'')
              \<and> cell (rows d1 ! i) (PStr ''rank'') = PInt 0
         else cell (rows d1 ! i) (PStr ''rank'') = cell (rows T ! i) (PStr ''rank'')
              \<and> cell (rows d1 ! i) (PStr ''rankReason'')
                  = (case map_of (rows T ! i) (PStr ''rankReason'') of
                       None \<Rightarrow> PNaN | Some v \<Rightarrow> v)"
    by (simp add: r recode_row_sentinel recode_row_other) (simp add: cell_def)
  have c: "length (rows df') = length (rows d2)"
    unfolding d by (rule assign_column_length[OF l])
  have e: "\<forall>i<length (rows d2).
         cell (rows df' ! i) (PStr ''rank'') = cell (rows d2 ! i) (PStr ''rank'')
         \<and> cell (rows df' ! i) (PStr ''rankReason'') = cell (rows d2 ! i) (PStr ''rankReason'')"
    unfolding d using l by (simp add: assign_column_cell)
  from 1 2 games_info_scores_transformed[OF assms] a b c e show ?thesis
    by blast
qed

theorem scores_rank_recode_witness:
  "map (\<lambda>r. (cell r (PStr ''competitorId''), cell r (PStr ''rank''), cell r (PStr ''rankReason'')))
     (rows (projr (snd (games_info_scores
        (sample_ext
           [Inr (sample_page 1 2 [sample_competitor 11 ''1'' ''CUT'',
                                  sample_competitor 12 ''2'' ''5'']),
            Inr (sample_page 1 2 [sample_competitor 11 ''1'' ''CUT'',
                                  sample_competitor 12 ''2'' ''5''])])
        (PInt 2022) (PInt 1) state0))))
   = [(PInt 11, PInt 0, PStr ''CUT''), (PInt 12, PStr ''5'', PNaN)]"
proof -
  let ?p = "sample_page 1 2 [sample_competitor 11 ''1'' ''CUT'', sample_competitor 12 ''2'' ''5'']"
  let ?x = "sample_ext [Inr ?p, Inr ?p]"
  let ?T = "\<lparr>columns = [PStr ''rank'', PStr ''scoreDisplay'', PStr ''competitorId'',
                         PStr ''year'', PStr ''division''],
              rows = [[(PStr ''rank'', PStr ''CUT''), (PStr ''scoreDisplay'', PStr ''300 lb''),
                       (PStr ''competitorId'', PInt 11), (PStr ''year'', PInt 2022),
                       (PStr ''division'', PInt 1)],
                      [(PStr ''rank'', PStr ''5''), (PStr ''scoreDisplay'', PStr ''300 lb''),
                       (PStr ''competitorId'', PInt 12), (PStr ''year'', PInt 2022),
                       (PStr ''division'', PInt 1)]]\<rparr>"
  let ?df = "\<lparr>columns = [PStr ''rank'', PStr ''scoreDisplay'', PStr ''competitorId'',
                          PStr ''year'', PStr ''division'', PStr ''rankReason'',
                          PStr ''scoreIsWeightInKg''],
               rows = [[(PStr ''rank'', PInt 0), (PStr ''scoreDisplay'', PStr ''300 lb''),
                        (PStr ''competitorId'', PInt 11), (PStr ''year'', PInt 2022),
                        (PStr ''division'', PInt 1), (PStr ''rankReason'', PStr ''CUT''),
                        (PStr ''scoreIsWeightInKg'', PNaN)],
                       [(PStr ''rank'', PStr ''5''), (PStr ''scoreDisplay'', PStr ''300 lb''),
                        (PStr ''competitorId'', PInt 12), (PStr ''year'', PInt 2022),
                        (PStr ''division'', PInt 1), (PStr ''scoreIsWeightInKg'', PNaN)]]\<rparr>"
  let ?loop = "scores_div_loop ?x (PInt 2022) (division_value_scores (PInt 1)) DataFrame_empty state0"
  have "snd ?loop = (?T, None)"
    by code_simp
  then have h1: "?loop = (fst ?loop, ?T, None)"
    by (metis prod.collapse)
  have h2: "scores_transform ?x ?T = Inr ?df"
    by code_simp
  from scores_rank_recode[OF h1 h2]
  have "snd (games_info_scores ?x (PInt 2022) (PInt 1) state0) = Inr ?df"
    by blast
  then show ?thesis
    by (simp add: cell_def)
qed

text \<open>
  \<^bold>\<open>C8.\<close> Line 143 replaces the rank \<open>5T\<close> by the list \<open>['5']\<close> of its digit runs, not by
  the string \<open>5\<close>; the integer cast of line 145 gets a list in every cell and raises, so
  for a leaderboard with one competitor ranked \<open>5T\<close> \<open>games_info_competitors\<close> raises
  \<open>ValueError\<close> and returns no table.
\<close>

theorem overallRank_list_not_coerced:
  "findall_digits (PStr ''5T'') = Inr (PList [PStr ''5''])
   \<and> astype_int [PList [PStr ''5'']] = Inl ValueError
   \<and> snd (games_info_competitors
            (sample_ext [Inr (sample_page 1 1 []),
                         Inr (sample_page 1 1 [sample_competitor 11 ''5T'' ''1''])])
            (PInt 2022) (PInt 1) state0)
       = Inl ValueError"
  by code_simp

text \<open>
  \<^bold>\<open>C9\<close>, as stated, fails. The leaderboard of 2021 lacks the key \<open>pagination\<close>, so
  \<open>games_info\<close> raises \<open>KeyError\<close> in the year loop; \<open>games_info_scores_multiple\<close> still
  returns a table, which holds the score row of 2022, and it issued the requests of 2022.
\<close>

theorem scores_multiple_continues_after_missing_key:
  "snd (games_info (sample_ext [Inr (PDict [])]) (PInt 2021) (PInt 1) state0)
     = Inl (KeyError (PStr ''pagination''))
   \<and> map (\<lambda>r. (cell r (PStr ''year''), cell r (PStr ''competitorId'')))
       (rows (projr (snd (games_info_scores_multiple
          (sample_ext [Inr (PDict []), Inr (sample_page 1 1 []),
                       Inr (sample_page 1 1 [sample_competitor 11 ''5T'' ''CUT''])])
          (PInt 2021) (PInt 2022) (PInt 1) state0))))
     = [(PInt 2022, PInt 11)]
   \<and> length (requests (fst (games_info_scores_multiple
          (sample_ext [Inr (PDict []), Inr (sample_page 1 1 []),
                       Inr (sample_page 1 1 [sample_competitor 11 ''5T'' ''CUT''])])
          (PInt 2021) (PInt 2022) (PInt 1) state0))) = 3"
  by code_simp

text \<open>
  \<^bold>\<open>C9\<close>, amended. Called with integers, \<open>games_info_scores_multiple\<close> returns a table
  and propagates nothing out of the year loop: \<open>games_info_scores\<close> answers a failure of a
  year with the empty table, and the loop goes on to the next year with the table of this
  year, tagged with the year, appended.
\<close>

theorem games_info_scores_multiple_never_propagates:
  assumes "isinstance_int year_from" and "isinstance_int year_too" and "isinstance_int division"
  shows "(\<exists>st' t. games_info_scores_multiple x year_from year_too division st = (st', Inr t))
    \<and> scores_year_loop x division (year # years) df st
        = scores_year_loop x division years
            (pd_concat df (broadcast_column (PStr ''year'') (PInt year)
               (projr (snd (games_info_scores x (PInt year) division
                  (logging INFO ''Fetching games info score for year {year}'' st))))))
            (fst (games_info_scores x (PInt year) division
                  (logging INFO ''Fetching games info score for year {year}'' st)))"
proof
  from year_range_Inr[OF assms(1,2)] obtain ys where
    "exn_bind (py_add_int year_too 1) (py_range2 year_from) = Inr ys" by blast
  with assms scores_year_loop_Inr[of x division ys DataFrame_empty st]
  show "\<exists>st' t. games_info_scores_multiple x year_from year_too division st = (st', Inr t)"
    by (simp add: games_info_scores_multiple_def)
next
  obtain st1 t1 where g: "games_info_scores x (PInt year) division
        (logging INFO ''Fetching games info score for year {year}'' st) = (st1, Inr t1)"
    using games_info_scores_Inr by blast
  then show "scores_year_loop x division (year # years) df st
        = scores_year_loop x division years
            (pd_concat df (broadcast_column (PStr ''year'') (PInt year)
               (projr (snd (games_info_scores x (PInt year) division
                  (logging INFO ''Fetching games info score for year {year}'' st))))))
            (fst (games_info_scores x (PInt year) division
                  (logging INFO ''Fetching games info score for year {year}'' st)))"
    by simp
qed

theorem games_info_scores_multiple_never_propagates_witness:
  "isinstance_int (PInt 2021) \<and> isinstance_int (PInt 2022) \<and> isinstance_int (PInt 1)
   \<and> (\<exists>st' t. games_info_scores_multiple (sample_ext [Inr (PDict [])])
                  (PInt 2021) (PInt 2022) (PInt 1) state0 = (st', Inr t))"
proof -
  have i: "isinstance_int (PInt 2021)" "isinstance_int (PInt 2022)" "isinstance_int (PInt 1)"
    by simp_all
  from games_info_scores_multiple_never_propagates[OF i] i show ?thesis
    by blast
qed

text \<open>
  \<^bold>\<open>C10.\<close> \<open>games_json_dump\<close> raises \<open>TypeError\<close> with no request issued exactly when one
  of \<open>year\<close>, \<open>division\<close>, \<open>page\<close> fails \<^verbatim>\<open>isinstance(x, int)\<close>. For integers, whatever
  their values, it issues one request, whose URL has the three numbers written in
  decimal, and returns or raises what the HTTP client returns or raises.
\<close>

theorem games_json_dump_validation:
  "(((\<exists>msg. snd (games_json_dump x year division page st) = Inl (TypeError msg))
      \<and> requests (fst (games_json_dump x year division page st)) = requests st)
     = (\<not> (isinstance_int year \<and> isinstance_int division \<and> isinstance_int page)))
   \<and> requests (fst (games_json_dump x (PInt y) (PInt d) (PInt p) st))
       = requests st @ [''https://c3po.crossfit.com/api/leaderboards/v2/competitions/games/''
                        @ str_int y @ ''/leaderboards?division='' @ str_int d
                        @ ''&sort=0&page='' @ str_int p]
   \<and> snd (games_json_dump x (PInt y) (PInt d) (PInt p) st)
       = (case requests_get x (requests st) (request_url (PInt y) (PInt d) (PInt p)) of
            Inl e \<Rightarrow> Inl e | Inr response \<Rightarrow> response)"
proof (intro conjI)
  show "((\<exists>msg. snd (games_json_dump x year division page st) = Inl (TypeError msg))
      \<and> requests (fst (games_json_dump x year division page st)) = requests st)
     = (\<not> (isinstance_int year \<and> isinstance_int division \<and> isinstance_int page))"
  proof (cases "isinstance_int year \<and> isinstance_int division \<and> isinstance_int page")
    case True
    then have "requests (fst (games_json_dump x year division page st)) \<noteq> requests st"
      by (simp add: games_json_dump_int(1))
    with True show ?thesis by simp
  next
    case False
    with games_json_dump_not_int[OF False] show ?thesis by simp
  qed
  show "requests (fst (games_json_dump x (PInt y) (PInt d) (PInt p) st))
       = requests st @ [''https://c3po.crossfit.com/api/leaderboards/v2/competitions/games/''
                        @ str_int y @ ''/leaderboards?division='' @ str_int d
                        @ ''&sort=0&page='' @ str_int p]"
    by (simp add: games_json_dump_int(1) request_url_def)
  show "snd (games_json_dump x (PInt y) (PInt d) (PInt p) st)
       = (case requests_get x (requests st) (request_url (PInt y) (PInt d) (PInt p)) of
            Inl e \<Rightarrow> Inl e | Inr response \<Rightarrow> response)"
    by (simp add: games_json_dump_int(2))
qed

theorem games_json_dump_validation_witness:
  "requests (fst (games_json_dump (sample_ext []) (PInt 2022) (PInt 7) (PInt (- 3)) state0))
     = [''https://c3po.crossfit.com/api/leaderboards/v2/competitions/games/2022/leaderboards?division=7&sort=0&page=-3'']
   \<and> snd (games_json_dump (sample_ext []) (PInt 2022) (PInt 7) (PInt (- 3)) state0)
     = Inl RequestException
   \<and> snd (games_json_dump (sample_ext []) (PInt 2022) (PStr ''1'') (PInt 1) state0)
     = Inl (TypeError ''division should be an integer'')
   \<and> requests (fst (games_json_dump (sample_ext []) (PInt 2022) (PStr ''1'') (PInt 1) state0)) = []"
proof -
  have s: "str_int 2022 = ''2022''" "str_int 7 = ''7''" "str_int (- 3) = ''-3''"
    by code_simp+
  have r: "requests_get (sample_ext []) [] u = Inl RequestException" for u
    by (simp add: sample_ext_def replay_def)
  have n: "\<not> (isinstance_int (PInt 2022) \<and> isinstance_int (PStr ''1'') \<and> isinstance_int (PInt 1))"
    by simp
  have t: "snd (games_json_dump (sample_ext []) (PInt 2022) (PStr ''1'') (PInt 1) state0)
     = Inl (TypeError ''division should be an integer'')"
    by (simp add: games_json_dump_def)
  from games_json_dump_validation[of "sample_ext []" "PInt 2022" "PStr ''1''" "PInt 1" state0
      2022 7 "- 3"] n t s r
  show ?thesis
    by (simp add: state0_def)
qed

subsection \<open>Further facts\<close>

text \<open>
  Off the multiples of 50 the two aggregators count alike: when \<open>totalCompetitors\<close> lies
  strictly between \<open>(totalPages - 1) * 50\<close> and \<open>totalPages * 50\<close>, both iterate over the
  same row indices on every page up to the last.
\<close>

lemma row_counts_agree_off_multiples:
  assumes "(total_pages - 1) * 50 < total_competitors" and "total_competitors < total_pages * 50"
    and "page \<le> total_pages"
  shows "competitors_on_page (PInt total_pages) (PInt total_competitors) page
     = exn_bind (scores_num_results (PInt total_pages) (PInt total_competitors) page) py_range"
  using assms(3) last_page_count_eq[OF assms(1,2)]
  by (simp add: competitors_on_page_def scores_num_results_def exn_bind_def py_range_def)

lemma row_counts_agree_off_multiples_witness:
  "competitors_on_page (PInt 3) (PInt 110) 3
     = exn_bind (scores_num_results (PInt 3) (PInt 110) 3) py_range
   \<and> competitors_on_page (PInt 3) (PInt 110) 3 = Inr [0..<10]"
proof -
  have "((3::int) - 1) * 50 < 110" "(110::int) < 3 * 50" "(3::int) \<le> 3" by simp_all
  from row_counts_agree_off_multiples[OF this] show ?thesis
    by (simp add: competitors_on_page_int)
qed

text \<open>
  \<open>games_info_competitors\<close> returns no table on any input. With no row collected, line
  141 raises \<open>KeyError\<close>; with a row, either a clean-up of lines 141 and 143 raises, or line
  143 has left a list in every \<open>overallRank\<close> cell and the cast of line 145 raises.
\<close>

lemma games_info_competitors_always_raises:
  "\<exists>e. snd (games_info_competitors x year division st) = Inl e"
proof -
  let ?df = "snd (competitors_collect x year division st)"
  have "?df = DataFrame_empty \<or> rows ?df \<noteq> []"
    using competitors_div_loop_grows by (simp add: competitors_collect_def)
  then have "\<exists>e. competitors_transform x ?df = Inl e"
  proof
    assume "?df = DataFrame_empty"
    then show ?thesis
      by (simp add: competitors_transform_def update_column_def get_column_def exn_bind_def
          DataFrame_empty_def)
  next
    assume "rows ?df \<noteq> []"
    then show ?thesis by (rule competitors_transform_raises)
  qed
  then show ?thesis
    by (auto simp: games_info_competitors_def split: prod.splits sum.splits)
qed

end
